theory Spec2Isabelle
  imports Main
begin

section \<open>Python values\<close>

text \<open>
  A Python \<open>str\<close> is a sequence of Unicode code points; it is modelled as a list of
  naturals, so that the Hebrew block U+0590..U+05FF tested by \<open>_looks_hebrew\<close> and the
  typographic quotes of the fixed messages are ordinary elements. \<open>asc\<close> embeds an
  ASCII literal.
\<close>

type_synonym ustr = "nat list"

definition asc :: "string \<Rightarrow> ustr" where
  "asc s = map of_char s"

text \<open>
  The values that flow through the tool layer and the orchestration: what \<open>json.loads\<close>
  can produce and what the tools return. A \<open>dict\<close> is an association list in insertion
  order; the keys of a dictionary are distinct, and the functions below read the first
  entry of a key. Floating-point numbers are left out of the value universe.
\<close>

datatype pyval =
    PNone
  | PBool bool
  | PInt int
  | PStr ustr
  | PList "pyval list"
  | PDict "(ustr \<times> pyval) list"

type_synonym pydict = "(ustr \<times> pyval) list"

text \<open>Truth value testing, as \<open>if not x\<close> uses it.\<close>

fun truthy :: "pyval \<Rightarrow> bool" where
  "truthy PNone = False"
| "truthy (PBool b) = b"
| "truthy (PInt i) = (i \<noteq> 0)"
| "truthy (PStr s) = (s \<noteq> [])"
| "truthy (PList xs) = (xs \<noteq> [])"
| "truthy (PDict d) = (d \<noteq> [])"

text \<open>\<open>d.get(k)\<close>: the value stored under \<open>k\<close>, \<open>None\<close> when the key is absent.\<close>

definition dict_get :: "pydict \<Rightarrow> ustr \<Rightarrow> pyval" where
  "dict_get d k = (case map_of d k of None \<Rightarrow> PNone | Some v \<Rightarrow> v)"

text \<open>\<open>d[k] = v\<close>: an existing key keeps its position, a new key is appended.\<close>

fun dict_set :: "pydict \<Rightarrow> ustr \<Rightarrow> pyval \<Rightarrow> pydict" where
  "dict_set [] k v = [(k, v)]"
| "dict_set ((k', v') # d) k v = (if k' = k then (k, v) # d else (k', v') # dict_set d k v)"

text \<open>
  The exceptions the interpreter raises on the paths of this program. Each carries what
  the interpreter knows when it raises; the message text is the runtime's (see below).
\<close>

datatype pyexn =
    AttributeError pyval ustr
    \<comment> \<open>the value has no attribute of that name\<close>
  | TypeError_unexpected_keyword ustr ustr
    \<comment> \<open>function, keyword: \<open>f(**args)\<close> with a key that is no parameter of \<open>f\<close>\<close>
  | TypeError_missing_arguments ustr "ustr list"
    \<comment> \<open>function, the required parameters that got no value\<close>
  | TypeError_not_a_mapping ustr pyval
    \<comment> \<open>\<open>f(**args)\<close> with \<open>args\<close> not a mapping\<close>
  | TypeError_not_iterable pyval
    \<comment> \<open>\<open>k in v\<close> with \<open>v\<close> not a container\<close>
  | TypeError_item_assignment pyval
    \<comment> \<open>\<open>v[k] = x\<close> with \<open>v\<close> a list (index not an integer) or a string\<close>

text \<open>
  What the program takes from the Python runtime and standard library and not from its
  own code: the JSON codec, \<open>str()\<close> of a value that is not a string, and the message
  text of an exception (\<open>str(e)\<close>). \<open>json_loads\<close> returns \<open>None\<close> where
  \<open>json.loads\<close> raises.
\<close>

record runtime =
  json_dumps :: "pyval \<Rightarrow> ustr"
  json_loads :: "ustr \<Rightarrow> pyval option"
  str_value :: "pyval \<Rightarrow> ustr"
  str_exn :: "pyexn \<Rightarrow> ustr"

text \<open>\<open>{x}\<close> in an f-string: a string is inserted as it is, any other value by \<open>str()\<close>.\<close>

definition py_str :: "runtime \<Rightarrow> pyval \<Rightarrow> ustr" where
  "py_str R v = (case v of PStr s \<Rightarrow> s | _ \<Rightarrow> str_value R v)"

subsection \<open>String operations\<close>

text \<open>
  \<open>str.isspace\<close> on one code point: the characters \<open>str.strip()\<close> removes.
\<close>

definition isspace :: "nat \<Rightarrow> bool" where
  "isspace c = ((9 \<le> c \<and> c \<le> 13) \<or> (28 \<le> c \<and> c \<le> 32) \<or> c = 133 \<or> c = 160
     \<or> c = 5760 \<or> (8192 \<le> c \<and> c \<le> 8202) \<or> c = 8232 \<or> c = 8233 \<or> c = 8239
     \<or> c = 8287 \<or> c = 12288)"

definition strip :: "ustr \<Rightarrow> ustr" where
  "strip s = rev (dropWhile isspace (rev (dropWhile isspace s)))"

text \<open>
  \<open>str.lower()\<close> on the ASCII letters; code points beyond ASCII are left as they
  are. Python folds the cased letters beyond ASCII too, and of those only the Kelvin sign
  U+212A has a lower-case form within ASCII (the letter k): on a store whose names are
  ASCII without that letter, as the shipped one, every lookup is as with Python's
  \<open>lower()\<close>.
\<close>

definition lower_cp :: "nat \<Rightarrow> nat" where
  "lower_cp c = (if 65 \<le> c \<and> c \<le> 90 then c + 32 else c)"

definition lower :: "ustr \<Rightarrow> ustr" where
  "lower s = map lower_cp s"

section \<open>The lookup store (app/db.py)\<close>

record user =
  u_user_id :: ustr
  u_name :: ustr
  u_prescriptions :: "ustr list"

record dosage =
  d_dose_amount :: ustr
  d_frequency :: ustr
  d_max_daily :: ustr

record medication =
  m_name :: ustr
  m_active_ingredient :: ustr
  m_requires_prescription :: bool
  m_dosage_instruction :: dosage
  m_usage_instructions :: ustr
  m_safety_instructions :: ustr
  m_stock :: int

record store =
  USERS :: "user list"
  MEDICATIONS :: "medication list"

definition shipped_USERS :: "user list" where
  "shipped_USERS = [
     \<lparr>u_user_id = asc ''u001'', u_name = asc ''Einat Shvartz'',
      u_prescriptions = [asc ''Amoxicillin'', asc ''Metformin'']\<rparr>,
     \<lparr>u_user_id = asc ''u002'', u_name = asc ''Guy Lurya'',
      u_prescriptions = []\<rparr>,
     \<lparr>u_user_id = asc ''u003'', u_name = asc ''Noa Kasher'',
      u_prescriptions = [asc ''Amoxicillin'']\<rparr>,
     \<lparr>u_user_id = asc ''u004'', u_name = asc ''Amit Wiez'',
      u_prescriptions = []\<rparr>,
     \<lparr>u_user_id = asc ''u005'', u_name = asc ''Lea London'',
      u_prescriptions = [asc ''Metformin'']\<rparr>,
     \<lparr>u_user_id = asc ''u006'', u_name = asc ''Maya Rubin'',
      u_prescriptions = []\<rparr>,
     \<lparr>u_user_id = asc ''u007'', u_name = asc ''Tamar Levi'',
      u_prescriptions = [asc ''Amoxicillin'']\<rparr>,
     \<lparr>u_user_id = asc ''u008'', u_name = asc ''Tair Cohen'',
      u_prescriptions = []\<rparr>,
     \<lparr>u_user_id = asc ''u009'', u_name = asc ''Nicole Kaplan'',
      u_prescriptions = [asc ''Metformin'']\<rparr>,
     \<lparr>u_user_id = asc ''u010'', u_name = asc ''Omri Paz'',
      u_prescriptions = []\<rparr>]"

definition shipped_MEDICATIONS :: "medication list" where
  "shipped_MEDICATIONS = [
     \<lparr>m_name = asc ''Paracetamol'',
      m_active_ingredient = asc ''Acetaminophen'',
      m_requires_prescription = False,
      m_dosage_instruction = \<lparr>d_dose_amount = asc ''500 mg'',
        d_frequency = asc ''every 4'' @ [8211] @ asc ''6 hours'',
        d_max_daily = asc ''Do not exceed 4,000 mg in 24 hours (label guidance).''\<rparr>,
      m_usage_instructions = asc ''Take with water. Follow the package directions.'',
      m_safety_instructions = asc ''Do not use if you are allergic to acetaminophen. Avoid combining with '' @
        asc ''other products containing acetaminophen. Follow the label and consult '' @
        asc ''a healthcare professional for personal medical advice.'',
      m_stock = 42\<rparr>,
     \<lparr>m_name = asc ''Ibuprofen'',
      m_active_ingredient = asc ''Ibuprofen'',
      m_requires_prescription = False,
      m_dosage_instruction = \<lparr>d_dose_amount = asc ''200'' @ [8211] @ asc ''400 mg'',
        d_frequency = asc ''every 6'' @ [8211] @ asc ''8 hours'',
        d_max_daily = asc ''Do not exceed 1,200 mg in 24 hours unless directed by a clinician (lab'' @
          asc ''el guidance).''\<rparr>,
      m_usage_instructions = asc ''Take with food or milk to reduce stomach upset. Follow the package dir'' @
        asc ''ections.'',
      m_safety_instructions = asc ''Do not use if you are allergic to ibuprofen/NSAIDs. May increase risk '' @
        asc ''of stomach bleeding; follow label warnings. Consult a healthcare profe'' @
        asc ''ssional for pregnancy/medical conditions or personal medical advice.'',
      m_stock = 18\<rparr>,
     \<lparr>m_name = asc ''Amoxicillin'',
      m_active_ingredient = asc ''Amoxicillin'',
      m_requires_prescription = True,
      m_dosage_instruction = \<lparr>d_dose_amount = asc ''As prescribed'',
        d_frequency = asc ''As prescribed'',
        d_max_daily = asc ''As prescribed''\<rparr>,
      m_usage_instructions = asc ''Prescription-only. Take exactly as prescribed. Complete the full cours'' @
        asc ''e if instructed.'',
      m_safety_instructions = asc ''Do not use if you have a penicillin allergy. Follow the prescriber'' @ [8217] @
        asc ''s directions and consult a healthcare professional for side effects or'' @
        asc '' concerns.'',
      m_stock = 10\<rparr>,
     \<lparr>m_name = asc ''Cetirizine'',
      m_active_ingredient = asc ''Cetirizine'',
      m_requires_prescription = False,
      m_dosage_instruction = \<lparr>d_dose_amount = asc ''10 mg'',
        d_frequency = asc ''once daily'',
        d_max_daily = asc ''Do not exceed 10 mg in 24 hours (label guidance).''\<rparr>,
      m_usage_instructions = asc ''May be taken with or without food. Follow the package directions.'',
      m_safety_instructions = asc ''Do not use if you are allergic to cetirizine. May cause drowsiness in '' @
        asc ''some people; follow label warnings. Consult a healthcare professional '' @
        asc ''for pregnancy/breastfeeding or personal medical advice.'',
      m_stock = 0\<rparr>,
     \<lparr>m_name = asc ''Metformin'',
      m_active_ingredient = asc ''Metformin'',
      m_requires_prescription = True,
      m_dosage_instruction = \<lparr>d_dose_amount = asc ''As prescribed'',
        d_frequency = asc ''As prescribed'',
        d_max_daily = asc ''As prescribed''\<rparr>,
      m_usage_instructions = asc ''Prescription-only. Take with meals as prescribed to reduce stomach ups'' @
        asc ''et.'',
      m_safety_instructions = asc ''Do not use if you are allergic to metformin. Follow the prescriber'' @ [8217] @
        asc ''s directions and consult a healthcare professional for side effects or'' @
        asc '' concerns.'',
      m_stock = 6\<rparr>]"

definition shipped :: store where
  "shipped = \<lparr>USERS = shipped_USERS, MEDICATIONS = shipped_MEDICATIONS\<rparr>"

section \<open>The tool layer (app/tools.py)\<close>

text \<open>
  The tools are called with whatever the model put into the argument payload, so their
  parameters are Python values: a string is looked up, a falsy value of any type takes
  the \<open>if not name\<close> exit, and any other value has no \<open>strip\<close> method.
\<close>

fun find_med_loop :: "medication list \<Rightarrow> ustr \<Rightarrow> medication option" where
  "find_med_loop [] name_l = None"
| "find_med_loop (m # ms) name_l =
     (if lower (m_name m) = name_l then Some m else find_med_loop ms name_l)"

definition find_med_by_name :: "store \<Rightarrow> pyval \<Rightarrow> pyexn + medication option" where
  "find_med_by_name db name =
     (if \<not> truthy name then Inr None
      else case name of
             PStr s \<Rightarrow> Inr (find_med_loop (MEDICATIONS db) (lower (strip s)))
           | _ \<Rightarrow> Inl (AttributeError name (asc ''strip'')))"

fun find_user_loop :: "user list \<Rightarrow> ustr \<Rightarrow> user option" where
  "find_user_loop [] uid = None"
| "find_user_loop (u # us) uid =
     (if u_user_id u = uid then Some u else find_user_loop us uid)"

definition find_user_by_id :: "store \<Rightarrow> pyval \<Rightarrow> pyexn + user option" where
  "find_user_by_id db user_id =
     (if \<not> truthy user_id then Inr None
      else case user_id of
             PStr s \<Rightarrow> Inr (find_user_loop (USERS db) (strip s))
           | _ \<Rightarrow> Inl (AttributeError user_id (asc ''strip'')))"

text \<open>The two error envelopes of the tool layer, discriminated by \<open>found\<close> or by \<open>ok\<close>.\<close>

definition error_body :: "ustr \<Rightarrow> ustr \<Rightarrow> pyval" where
  "error_body code message =
     PDict [(asc ''code'', PStr code), (asc ''message'', PStr message)]"

definition user_not_found_message :: "runtime \<Rightarrow> pyval \<Rightarrow> ustr" where
  "user_not_found_message R user_id =
     asc ''User '' @ [39] @ py_str R user_id @ [39] @ asc '' not found''"

definition med_not_found_message :: "runtime \<Rightarrow> pyval \<Rightarrow> ustr" where
  "med_not_found_message R name =
     asc ''Medication '' @ [39] @ py_str R name @ [39] @ asc '' not found''"

definition get_user :: "runtime \<Rightarrow> store \<Rightarrow> pyval \<Rightarrow> pyexn + pyval" where
  "get_user R db user_id =
     (case find_user_by_id db user_id of
        Inl e \<Rightarrow> Inl e
      | Inr None \<Rightarrow>
          Inr (PDict [(asc ''found'', PBool False),
                      (asc ''error'',
                         error_body (asc ''UNKNOWN_USER'') (user_not_found_message R user_id))])
      | Inr (Some user) \<Rightarrow>
          Inr (PDict [(asc ''found'', PBool True),
                      (asc ''user'',
                         PDict [(asc ''user_id'', PStr (u_user_id user)),
                                (asc ''name'', PStr (u_name user)),
                                (asc ''prescriptions'',
                                   PList (map PStr (u_prescriptions user)))])]))"

definition get_medication_by_name :: "runtime \<Rightarrow> store \<Rightarrow> pyval \<Rightarrow> pyexn + pyval" where
  "get_medication_by_name R db name =
     (case find_med_by_name db name of
        Inl e \<Rightarrow> Inl e
      | Inr None \<Rightarrow>
          Inr (PDict [(asc ''found'', PBool False),
                      (asc ''error'',
                         error_body (asc ''NOT_FOUND'') (med_not_found_message R name))])
      | Inr (Some med) \<Rightarrow>
          Inr (PDict [(asc ''found'', PBool True),
                      (asc ''medication'',
                         PDict [(asc ''name'', PStr (m_name med)),
                                (asc ''active_ingredient'', PStr (m_active_ingredient med)),
                                (asc ''requires_prescription'',
                                   PBool (m_requires_prescription med)),
                                (asc ''dosage_instruction'',
                                   PDict [(asc ''dose_amount'',
                                             PStr (d_dose_amount (m_dosage_instruction med))),
                                          (asc ''frequency'',
                                             PStr (d_frequency (m_dosage_instruction med))),
                                          (asc ''max_daily'',
                                             PStr (d_max_daily (m_dosage_instruction med)))]),
                                (asc ''usage_instructions'', PStr (m_usage_instructions med)),
                                (asc ''safety_instructions'', PStr (m_safety_instructions med)),
                                (asc ''stock'', PInt (m_stock med))])]))"

definition check_stock :: "runtime \<Rightarrow> store \<Rightarrow> pyval \<Rightarrow> pyexn + pyval" where
  "check_stock R db name =
     (case find_med_by_name db name of
        Inl e \<Rightarrow> Inl e
      | Inr None \<Rightarrow>
          Inr (PDict [(asc ''found'', PBool False),
                      (asc ''error'',
                         error_body (asc ''NOT_FOUND'') (med_not_found_message R name))])
      | Inr (Some med) \<Rightarrow>
          Inr (PDict [(asc ''found'', PBool True),
                      (asc ''name'', PStr (m_name med)),
                      (asc ''stock'', PInt (m_stock med))]))"

text \<open>
  \<open>check_prescription\<close>: the user is looked up first, so an unknown user is reported
  before the medication name is touched. The prescription test compares the stripped,
  lower-cased canonical name with the stripped, lower-cased names on file.
\<close>

definition check_prescription ::
  "runtime \<Rightarrow> store \<Rightarrow> pyval \<Rightarrow> pyval \<Rightarrow> pyexn + pyval" where
  "check_prescription R db user_id name =
     (case find_user_by_id db user_id of
        Inl e \<Rightarrow> Inl e
      | Inr None \<Rightarrow>
          Inr (PDict [(asc ''ok'', PBool False),
                      (asc ''error'',
                         error_body (asc ''UNKNOWN_USER'') (user_not_found_message R user_id))])
      | Inr (Some user) \<Rightarrow>
          (case find_med_by_name db name of
             Inl e \<Rightarrow> Inl e
           | Inr None \<Rightarrow>
               Inr (PDict [(asc ''ok'', PBool False),
                           (asc ''error'',
                              error_body (asc ''NOT_FOUND'') (med_not_found_message R name))])
           | Inr (Some med) \<Rightarrow>
               (let canonical_name = m_name med;
                    requires = m_requires_prescription med;
                    presc_set = set (map (\<lambda>x. lower (strip x)) (u_prescriptions user));
                    user_has = (lower (strip canonical_name) \<in> presc_set)
                in Inr (PDict [(asc ''ok'', PBool True),
                               (asc ''name'', PStr canonical_name),
                               (asc ''requires_prescription'', PBool requires),
                               (asc ''user_has_prescription'', PBool user_has)]))))"

text \<open>
  Reading an envelope: the error code it carries, if any. This is
  \<open>result.get("error", {}).get("code")\<close> on an envelope (both levels are dictionaries).
\<close>

definition error_code :: "pyval \<Rightarrow> pyval" where
  "error_code result =
     (case result of
        PDict d \<Rightarrow> (case map_of d (asc ''error'') of
                      Some (PDict err) \<Rightarrow> dict_get err (asc ''code'')
                    | _ \<Rightarrow> PNone)
      | _ \<Rightarrow> PNone)"

definition field :: "pyval \<Rightarrow> ustr \<Rightarrow> pyval option" where
  "field result k = (case result of PDict d \<Rightarrow> map_of d k | _ \<Rightarrow> None)"

section \<open>The orchestration (app/agent.py)\<close>

subsection \<open>Constants\<close>

definition SYSTEM_PROMPT :: ustr where
  "SYSTEM_PROMPT =
     [10] @ asc ''You are a real-time conversational pharmacy assistant for a retail pha'' @
     asc ''rmacy chain.'' @ [10, 10] @
     asc ''You are STATELESS: do not assume any memory of past messages beyond th'' @
     asc ''e current user message and tool outputs.'' @ [10, 10] @ asc ''Language:'' @
     [10] @ asc ''- Answer in the same language as the user (Hebrew or English).'' @
     [10, 10] @ asc ''Safety / Policy:'' @ [10] @
     asc ''- Provide factual information about medications based on the provided '' @
     asc ''tools. '' @ [10] @
     asc ''- Use ONLY the internal database provided via tools for factual medica'' @
     asc ''l information. Do NOT use any other source.'' @ [10] @
     asc ''- You MAY explain dosage/usage instructions as general label-style inf'' @
     asc ''ormation (non-personalized).'' @ [10] @
     asc ''- NO medical advice, NO diagnosis, NO treatment recommendations, NO su'' @
     asc ''itability judgments.'' @ [10] @ asc ''- Do NOT encourage purchasing.'' @ [10] @
     asc ''- If the user requests advice (e.g., '' @ [8220] @
     asc ''what should I take for'' @ [8230, 8221] @ asc '', '' @ [8220] @
     asc ''is it safe for me?'' @ [8221] @ asc '', '' @ [8220] @
     asc ''what do you recommend?'' @ [8221] @ asc ''),'' @ [10] @
     asc ''  refuse briefly and redirect to a pharmacist/doctor.'' @ [10] @
     asc ''- Do NOT end your responses with a follow-up question UNLESS a clarify'' @
     asc ''ing question is REQUIRED to use the tools.'' @ [10] @
     asc ''- If a medication name is provided in Hebrew - When using tools, pass '' @
     asc ''the english translation of the medical name.'' @ [10] @
     asc ''- Style: Be concise and final. Avoid offers like '' @ [8220] @ asc ''If you'' @
     [8217] @ asc ''d like, I can'' @ [8230, 8221] @
     asc ''. Provide the answer and stop.'' @ [10] @
     asc ''- Capability limits: Never claim you can check other branches, check l'' @
     asc ''ocations, set notifications, place orders, reserve items, arrange pick'' @
     asc ''up, or check refill/pickup status.'' @ [10, 10, 10] @
     asc ''Tool usage (IMPORTANT):'' @ [10] @
     asc ''- For any question about medication details (dosage/usage/safety), sto'' @
     asc ''ck/availability, or prescription requirements,'' @ [10] @
     asc ''  you MUST use the provided tools and not guess.'' @ [10] @
     asc ''- If the medication name is missing or ambiguous, ask a short clarifyi'' @
     asc ''ng question.'' @ [10]"

text \<open>The fixed user-facing messages, as code points.\<close>

definition unknown_user_message_he :: "ustr \<Rightarrow> ustr" where
  "unknown_user_message_he user_id =
     [1500, 1488, 32, 1502, 1510, 1488, 1514, 1497, 32, 1488, 1514, 32, 1492, 1502, 1513,
     1514, 1502, 1513, 32, 1489, 1502, 1506, 1512, 1499, 1514, 32, 40, 117, 115, 101, 114,
     95, 105, 100, 58, 32]
     @ user_id @
     [41, 44, 32, 1493, 1500, 1499, 1503, 32, 1500, 1488, 32, 1488, 1493, 1499, 1500, 32,
     1500, 1492, 1502, 1513, 1497, 1498, 46, 32, 1488, 1501, 32, 1497, 1513, 32, 1500, 1498,
     32, 117, 115, 101, 114, 95, 105, 100, 32, 1488, 1495, 1512, 44, 32, 1513, 1500, 1495,
     1497, 47, 1513, 1500, 1495, 32, 1488, 1493, 1514, 1493, 32, 1489, 1489, 1511, 1513,
     1492, 46]"

definition unknown_user_message_en :: "ustr \<Rightarrow> ustr" where
  "unknown_user_message_en user_id =
     asc ''I couldn'' @ [8217] @ asc ''t find this user in our system (user_id: ''
     @ user_id @
     asc ''), so I can'' @ [8217] @ asc ''t proceed. Please provide a valid user_id.''"

definition not_found_message_he :: ustr where
  "not_found_message_he =
     [1502, 1510, 1496, 1506, 1512, 47, 1514, 44, 32, 1500, 1488, 32, 1502, 1510, 1488,
     1514, 1497, 32, 1488, 1514, 32, 1513, 1501, 32, 1492, 1514, 1512, 1493, 1508, 1492, 32,
     1489, 1502, 1488, 1490, 1512, 32, 1492, 1508, 1504, 1497, 1502, 1497, 32, 1513, 1500,
     32, 1489, 1497, 1514, 32, 1492, 1502, 1512, 1511, 1495, 1514, 44, 32, 1493, 1500, 1499,
     1503, 32, 1488, 1497, 1504, 1504, 1497, 32, 1497, 1499, 1493, 1500, 47, 1492, 32, 1500,
     1505, 1508, 1511, 32, 1502, 1497, 1491, 1506, 32, 1506, 1500, 1497, 1492, 46, 32, 1488,
     1501, 32, 1514, 1512, 1510, 1492, 47, 1497, 44, 32, 1488, 1508, 1513, 1512, 32, 1500,
     1489, 1491, 1493, 1511, 32, 1513, 1493, 1489, 32, 1506, 1501, 32, 1488, 1497, 1493,
     1514, 32, 1502, 1491, 1493, 1497, 1511, 32, 40, 1493, 1489, 1488, 1504, 1490, 1500,
     1497, 1514, 32, 1488, 1501, 32, 1497, 1513, 41, 44, 32, 1488, 1493, 32, 1500, 1510,
     1497, 1497, 1503, 32, 1513, 1501, 32, 1502, 1505, 1495, 1512, 1497, 46]"

definition not_found_message_en :: ustr where
  "not_found_message_en =
     asc ''Sorry '' @ [8212] @ asc '' I couldn'' @ [8217] @
     asc ''t find that medication in our internal pharmacy database, so I can'' @ [8217] @
     asc ''t provide information about it. If you'' @ [8217] @
     asc ''d like, please confirm the exact spelling (and the generic/brand name)'' @
     asc ''.''"

definition internal_error_message :: ustr where
  "internal_error_message =
     [10] @ asc ''Sorry '' @ [8212] @ asc '' internal error: missing tool call context.''"

definition stream_error_message :: ustr where
  "stream_error_message =
     [10] @ asc ''Sorry '' @ [8212] @
     asc '' I encountered an error while generating the response.''"

subsection \<open>The model backend and what a run does\<close>

text \<open>
  The decision response: its \<open>output\<close> is \<open>None\<close> or a list of items. An item
  is read by name, through \<open>getattr\<close> or \<open>get\<close>, so it is modelled by the mapping
  from its attribute (or key) names to values; a name that is absent reads as \<open>None\<close>.
\<close>

record response =
  r_output :: "pydict list option"

record event =
  e_type :: ustr
  e_delta :: ustr

text \<open>
  The backend answers the non-streaming decision call with a response and a streaming
  call with its events. The model name and the tool schemas are constants of every call
  and are left out: a decision call is given by its input, a streaming call by its input
  and its tool choice (\<open>None\<close> when no tools are attached).
\<close>

record backend =
  responses_create :: "pyval list \<Rightarrow> response"
  responses_stream :: "pyval list \<Rightarrow> ustr option \<Rightarrow> event list"

text \<open>
  What the generator does when it is read to its end, in order: the fragments it yields,
  the calls to the backend and the calls of the dispatcher; and how it ends, by returning
  or with an exception of its own code. The backend is taken to answer each call; logging
  is left out.
\<close>

datatype effect =
    Yield ustr
  | DecisionCall "pyval list"
  | StreamCall "pyval list" "ustr option"
  | ToolDispatch pyval pyval

datatype ending = Returned | Raised pyexn

record run =
  effects :: "effect list"
  ending :: ending

subsection \<open>Tool dispatcher\<close>

text \<open>
  \<open>f(**args)\<close> for a function whose parameters are all required: \<open>args\<close> must be a
  mapping, every key must name a parameter, and every parameter must get a value.
\<close>

definition bind_kwargs :: "ustr \<Rightarrow> ustr list \<Rightarrow> pyval \<Rightarrow> pyexn + pydict" where
  "bind_kwargs fname params args =
     (case args of
        PDict d \<Rightarrow>
          (case filter (\<lambda>k. k \<notin> set params) (map fst d) of
             k # _ \<Rightarrow> Inl (TypeError_unexpected_keyword fname k)
           | [] \<Rightarrow>
               (let missing = filter (\<lambda>p. p \<notin> set (map fst d)) params
                in if missing = [] then Inr d
                   else Inl (TypeError_missing_arguments fname missing)))
      | _ \<Rightarrow> Inl (TypeError_not_a_mapping fname args))"

definition run_tool :: "runtime \<Rightarrow> store \<Rightarrow> pyval \<Rightarrow> pyval \<Rightarrow> pyexn + pyval" where
  "run_tool R db tool_name args =
     (if tool_name = PStr (asc ''get_medication_by_name'') then
        (case bind_kwargs (asc ''get_medication_by_name'') [asc ''name''] args of
           Inl e \<Rightarrow> Inl e
         | Inr kw \<Rightarrow> get_medication_by_name R db (dict_get kw (asc ''name'')))
      else if tool_name = PStr (asc ''check_stock'') then
        (case bind_kwargs (asc ''check_stock'') [asc ''name''] args of
           Inl e \<Rightarrow> Inl e
         | Inr kw \<Rightarrow> check_stock R db (dict_get kw (asc ''name'')))
      else if tool_name = PStr (asc ''check_prescription'') then
        (case bind_kwargs (asc ''check_prescription'') [asc ''user_id'', asc ''name''] args of
           Inl e \<Rightarrow> Inl e
         | Inr kw \<Rightarrow>
             check_prescription R db (dict_get kw (asc ''user_id'')) (dict_get kw (asc ''name'')))
      else
        Inr (PDict [(asc ''ok'', PBool False),
                    (asc ''error'',
                       error_body (asc ''UNKNOWN_TOOL'')
                         (asc ''Tool '' @ [39] @ py_str R tool_name @ [39]
                            @ asc '' not implemented''))]))"

subsection \<open>Reading the decision response\<close>

fun extract_loop :: "pydict list \<Rightarrow> pydict list" where
  "extract_loop [] = []"
| "extract_loop (item # rest) =
     (if dict_get item (asc ''type'') = PStr (asc ''function_call'')
      then [(asc ''name'', dict_get item (asc ''name'')),
            (asc ''arguments'', dict_get item (asc ''arguments'')),
            (asc ''call_id'', dict_get item (asc ''call_id''))] # extract_loop rest
      else extract_loop rest)"

definition extract_function_calls :: "response \<Rightarrow> pydict list" where
  "extract_function_calls resp =
     (case r_output resp of
        None \<Rightarrow> []
      | Some output \<Rightarrow> if output = [] then [] else extract_loop output)"

definition normalize_args :: "runtime \<Rightarrow> pyval \<Rightarrow> pyval" where
  "normalize_args R arguments =
     (case arguments of
        PNone \<Rightarrow> PDict []
      | PDict d \<Rightarrow> PDict d
      | PStr s \<Rightarrow> (case json_loads R s of Some v \<Rightarrow> v | None \<Rightarrow> PDict [])
      | _ \<Rightarrow> PDict [])"

fun looks_hebrew :: "ustr \<Rightarrow> bool" where
  "looks_hebrew [] = False"
| "looks_hebrew (ch # text) = (if 1424 \<le> ch \<and> ch \<le> 1535 then True else looks_hebrew text)"

subsection \<open>Tool execution\<close>

text \<open>
  \<open>"user_id" not in args\<close> and \<open>args["user_id"] = user_id\<close> stand outside the
  \<open>try\<close> block, and \<open>args\<close> is whatever normalization returned: membership is key
  membership on a mapping, element membership on a list, a substring test on a string,
  and a \<open>TypeError\<close> on anything else; item assignment succeeds on a mapping only.
\<close>

fun substring :: "ustr \<Rightarrow> ustr \<Rightarrow> bool" where
  "substring k [] = (k = [])"
| "substring k (c # s) = (take (length k) (c # s) = k \<or> substring k s)"

definition py_in :: "ustr \<Rightarrow> pyval \<Rightarrow> pyexn + bool" where
  "py_in k v =
     (case v of
        PDict d \<Rightarrow> Inr (k \<in> set (map fst d))
      | PList xs \<Rightarrow> Inr (PStr k \<in> set xs)
      | PStr s \<Rightarrow> Inr (substring k s)
      | _ \<Rightarrow> Inl (TypeError_not_iterable v))"

definition set_item :: "pyval \<Rightarrow> ustr \<Rightarrow> pyval \<Rightarrow> pyexn + pyval" where
  "set_item v k x =
     (case v of
        PDict d \<Rightarrow> Inr (PDict (dict_set d k x))
      | _ \<Rightarrow> Inl (TypeError_item_assignment v))"

definition ensure_user_id :: "pyval \<Rightarrow> pyval \<Rightarrow> ustr \<Rightarrow> pyexn + pyval" where
  "ensure_user_id name args user_id =
     (if name = PStr (asc ''check_prescription'') then
        (case py_in (asc ''user_id'') args of
           Inl e \<Rightarrow> Inl e
         | Inr present \<Rightarrow>
             if present then Inr args else set_item args (asc ''user_id'') (PStr user_id))
      else Inr args)"

text \<open>
  The dispatch of one call: \<open>_run_tool\<close> inside \<open>try\<close>, any exception turned into the
  \<open>TOOL_ERROR\<close> envelope with \<open>str(e)\<close> as its message.
\<close>

definition dispatch :: "runtime \<Rightarrow> store \<Rightarrow> pyval \<Rightarrow> pyval \<Rightarrow> pyval" where
  "dispatch R db name args =
     (case run_tool R db name args of
        Inr result \<Rightarrow> result
      | Inl e \<Rightarrow>
          PDict [(asc ''ok'', PBool False),
                 (asc ''error'', error_body (asc ''TOOL_ERROR'') (str_exn R e))])"

definition tool_output :: "runtime \<Rightarrow> pyval \<Rightarrow> pyval \<Rightarrow> pyval" where
  "tool_output R call_id result =
     PDict [(asc ''type'', PStr (asc ''function_call_output'')),
            (asc ''call_id'', call_id),
            (asc ''output'', PStr (json_dumps R result))]"

text \<open>
  Lines 214 to 219 of the loop body: the arguments that reach the dispatcher, or the
  exception raised before the \<open>try\<close> block is entered.
\<close>

definition prepare_args :: "runtime \<Rightarrow> ustr \<Rightarrow> pydict \<Rightarrow> pyexn + pyval" where
  "prepare_args R user_id call =
     ensure_user_id (dict_get call (asc ''name''))
       (normalize_args R (dict_get call (asc ''arguments''))) user_id"

text \<open>
  The loop over the extracted calls. It returns the dispatches made and either the
  collected output items or the exception that left the loop.
\<close>

fun tool_loop ::
  "runtime \<Rightarrow> store \<Rightarrow> ustr \<Rightarrow> pydict list \<Rightarrow> effect list \<times> (pyexn + pyval list)" where
  "tool_loop R db user_id [] = ([], Inr [])"
| "tool_loop R db user_id (call # rest) =
     (case prepare_args R user_id call of
        Inl e \<Rightarrow> ([], Inl e)
      | Inr args \<Rightarrow>
          (let name = dict_get call (asc ''name'');
               result = dispatch R db name args;
               out = tool_output R (dict_get call (asc ''call_id'')) result;
               (dispatched, outputs) = tool_loop R db user_id rest
           in (ToolDispatch name args # dispatched,
               case outputs of Inl e \<Rightarrow> Inl e | Inr outs \<Rightarrow> Inr (out # outs))))"

text \<open>
  A structured argument payload is the very object the response item holds
  (\<open>_normalize_args\<close> returns it as it is), so the assignment of line 219 shows in the
  item when the output sequence is read again for the final call. A payload given as
  text is parsed into a fresh mapping and the item is untouched.
\<close>

definition item_after_tools :: "ustr \<Rightarrow> pydict \<Rightarrow> pydict" where
  "item_after_tools user_id item =
     (if dict_get item (asc ''type'') = PStr (asc ''function_call'') then
        (case dict_get item (asc ''arguments'') of
           PDict d \<Rightarrow>
             (case ensure_user_id (dict_get item (asc ''name'')) (PDict d) user_id of
                Inr args' \<Rightarrow> dict_set item (asc ''arguments'') args'
              | Inl e \<Rightarrow> item)
         | _ \<Rightarrow> item)
      else item)"

subsection \<open>The short-circuit scan\<close>

definition dict_get_or :: "pydict \<Rightarrow> ustr \<Rightarrow> pyval \<Rightarrow> pyval" where
  "dict_get_or d k dflt = (case map_of d k of None \<Rightarrow> dflt | Some v \<Rightarrow> v)"

text \<open>\<open>v.get(k, default)\<close>: only a mapping has \<open>get\<close>.\<close>

definition py_get :: "pyval \<Rightarrow> ustr \<Rightarrow> pyval \<Rightarrow> pyexn + pyval" where
  "py_get v k dflt =
     (case v of
        PDict d \<Rightarrow> Inr (dict_get_or d k dflt)
      | _ \<Rightarrow> Inl (AttributeError v (asc ''get'')))"

text \<open>
  \<open>json.loads(out.get("output", "{}"))\<close> inside \<open>try\<close>: \<open>None\<close> stands for any
  exception, which makes the loop continue with the next item.
\<close>

definition load_output :: "runtime \<Rightarrow> pyval \<Rightarrow> pyval option" where
  "load_output R out =
     (case py_get out (asc ''output'') (PStr [123, 125]) of
        Inr (PStr s) \<Rightarrow> json_loads R s
      | _ \<Rightarrow> None)"

fun scan_not_found :: "runtime \<Rightarrow> pyval list \<Rightarrow> pyexn + bool" where
  "scan_not_found R [] = Inr False"
| "scan_not_found R (out # rest) =
     (case load_output R out of
        None \<Rightarrow> scan_not_found R rest
      | Some result \<Rightarrow>
          (case py_get result (asc ''error'') (PDict []) of
             Inl e \<Rightarrow> Inl e
           | Inr err \<Rightarrow>
               (case py_get err (asc ''code'') PNone of
                  Inl e \<Rightarrow> Inl e
                | Inr code \<Rightarrow>
                    if code = PStr (asc ''NOT_FOUND'') then Inr True
                    else scan_not_found R rest)))"

subsection \<open>Streaming and the main entry\<close>

fun relay :: "event list \<Rightarrow> effect list" where
  "relay [] = []"
| "relay (event # rest) =
     (if e_type event = asc ''response.output_text.delta'' then [Yield (e_delta event)] else [])
     @ (if e_type event = asc ''response.error'' then [Yield stream_error_message]
        else relay rest)"

definition base_input :: "runtime \<Rightarrow> ustr \<Rightarrow> pyval \<Rightarrow> ustr \<Rightarrow> pyval list" where
  "base_input R user_id user_res user_message =
     (let user = (case user_res of
                    PDict d \<Rightarrow> (case dict_get d (asc ''user'') of PDict u \<Rightarrow> u | _ \<Rightarrow> [])
                  | _ \<Rightarrow> [])
      in [PDict [(asc ''role'', PStr (asc ''system'')), (asc ''content'', PStr SYSTEM_PROMPT)],
          PDict [(asc ''role'', PStr (asc ''system'')),
                 (asc ''content'',
                    PStr (asc ''User context: user_id='' @ user_id
                          @ asc '', name='' @ py_str R (dict_get user (asc ''name''))
                          @ asc '', prescriptions=''
                          @ py_str R (dict_get_or user (asc ''prescriptions'') (PList []))))],
          PDict [(asc ''role'', PStr (asc ''user'')), (asc ''content'', PStr user_message)]])"

text \<open>Step 5: the final streaming call, or the internal-error line.\<close>

definition final_answer ::
  "backend \<Rightarrow> pyval list \<Rightarrow> pydict list option \<Rightarrow> pyval list \<Rightarrow> effect list" where
  "final_answer B base resp_output tool_outputs =
     (case resp_output of
        None \<Rightarrow> [Yield internal_error_message]
      | Some [] \<Rightarrow> [Yield internal_error_message]
      | Some (item # items) \<Rightarrow>
          (let final_input = base @ map PDict (item # items) @ tool_outputs
           in StreamCall final_input (Some (asc ''none''))
              # relay (responses_stream B final_input (Some (asc ''none'')))))"

definition not_found_message :: "ustr \<Rightarrow> ustr" where
  "not_found_message user_message =
     (if looks_hebrew user_message then not_found_message_he else not_found_message_en)"

definition unknown_user_message :: "ustr \<Rightarrow> ustr \<Rightarrow> ustr" where
  "unknown_user_message user_message user_id =
     (if looks_hebrew user_message then unknown_user_message_he user_id
      else unknown_user_message_en user_id)"

definition stream_agent_reply :: "runtime \<Rightarrow> backend \<Rightarrow> store \<Rightarrow> ustr \<Rightarrow> ustr \<Rightarrow> run" where
  "stream_agent_reply R B db user_id user_message =
     (case get_user R db (PStr user_id) of
        Inl e \<Rightarrow> \<lparr>effects = [], ending = Raised e\<rparr>
      | Inr user_res \<Rightarrow>
          if \<not> truthy (case user_res of PDict d \<Rightarrow> dict_get d (asc ''found'') | _ \<Rightarrow> PNone)
          then \<lparr>effects = [Yield (unknown_user_message user_message user_id)],
                ending = Returned\<rparr>
          else
            (let base = base_input R user_id user_res user_message;
                 resp = responses_create B base;
                 tool_calls = extract_function_calls resp
             in if tool_calls = [] then
                  \<lparr>effects = DecisionCall base # StreamCall base None
                               # relay (responses_stream B base None),
                   ending = Returned\<rparr>
                else
                  (case tool_loop R db user_id tool_calls of
                     (dispatched, Inl e) \<Rightarrow>
                       \<lparr>effects = DecisionCall base # dispatched, ending = Raised e\<rparr>
                   | (dispatched, Inr tool_outputs) \<Rightarrow>
                       (case scan_not_found R tool_outputs of
                          Inl e \<Rightarrow>
                            \<lparr>effects = DecisionCall base # dispatched, ending = Raised e\<rparr>
                        | Inr hit \<Rightarrow>
                            if hit then
                              \<lparr>effects = DecisionCall base # dispatched
                                           @ [Yield (not_found_message user_message)],
                               ending = Returned\<rparr>
                            else
                              \<lparr>effects = DecisionCall base # dispatched
                                   @ final_answer B base
                                       (map_option (map (item_after_tools user_id)) (r_output resp))
                                       tool_outputs,
                               ending = Returned\<rparr>))))"

section \<open>A runtime and a backend for concrete runs\<close>

text \<open>
  The theorems below hold for every runtime, backend and store. For concrete runs, this
  is one runtime: \<open>str()\<close> of a value as Python prints it when its strings have no
  quote, backslash or unprintable character; the wording CPython 3.11 gives its
  exceptions; and the JSON codec on the texts that these runs exchange (any other text
  is rejected, any other value is written as \<open>null\<close>).
\<close>

fun digits :: "nat \<Rightarrow> ustr" where
  "digits n = (if n < 10 then [48 + n] else digits (n div 10) @ [48 + n mod 10])"

definition commas :: "ustr list \<Rightarrow> ustr" where
  "commas xs = concat (case xs of [] \<Rightarrow> [] | x # rest \<Rightarrow> x # map (\<lambda>y. [44, 32] @ y) rest)"

fun sample_repr :: "pyval \<Rightarrow> ustr" where
  "sample_repr PNone = asc ''None''"
| "sample_repr (PBool b) = (if b then asc ''True'' else asc ''False'')"
| "sample_repr (PInt i) = (if i < 0 then [45] else []) @ digits (nat \<bar>i\<bar>)"
| "sample_repr (PStr s) = [39] @ s @ [39]"
| "sample_repr (PList xs) = [91] @ commas (map sample_repr xs) @ [93]"
| "sample_repr (PDict d) =
     [123] @ commas (map (\<lambda>kv. [39] @ fst kv @ [39, 58, 32] @ sample_repr (snd kv)) d) @ [125]"

fun type_name :: "pyval \<Rightarrow> ustr" where
  "type_name PNone = asc ''NoneType''"
| "type_name (PBool b) = asc ''bool''"
| "type_name (PInt i) = asc ''int''"
| "type_name (PStr s) = asc ''str''"
| "type_name (PList xs) = asc ''list''"
| "type_name (PDict d) = asc ''dict''"

fun sample_str_exn :: "pyexn \<Rightarrow> ustr" where
  "sample_str_exn (AttributeError v a) =
     [39] @ type_name v @ [39] @ asc '' object has no attribute '' @ [39] @ a @ [39]"
| "sample_str_exn (TypeError_unexpected_keyword f k) =
     f @ asc ''() got an unexpected keyword argument '' @ [39] @ k @ [39]"
| "sample_str_exn (TypeError_missing_arguments f ps) =
     f @ asc ''() missing '' @ digits (length ps) @ asc '' required positional argument''
       @ (if length ps = 1 then [] else asc ''s'') @ asc '': ''
       @ (case ps of
            [p, q] \<Rightarrow> [39] @ p @ [39] @ asc '' and '' @ [39] @ q @ [39]
          | _ \<Rightarrow> commas (map (\<lambda>p. [39] @ p @ [39]) ps))"
| "sample_str_exn (TypeError_not_a_mapping f v) =
     asc ''app.tools.'' @ f @ asc ''() argument after ** must be a mapping, not '' @ type_name v"
| "sample_str_exn (TypeError_not_iterable v) =
     asc ''argument of type '' @ [39] @ type_name v @ [39] @ asc '' is not iterable''"
| "sample_str_exn (TypeError_item_assignment v) =
     (case v of
        PList xs \<Rightarrow> asc ''list indices must be integers or slices, not str''
      | _ \<Rightarrow> [39] @ type_name v @ [39] @ asc '' object does not support item assignment'')"

definition quoted :: "ustr \<Rightarrow> ustr" where
  "quoted s = [34] @ s @ [34]"

text \<open>The JSON texts of the concrete runs, each with the value it denotes.\<close>

definition sample_json :: "(ustr \<times> pyval) list" where
  "sample_json = [
     ([123] @ quoted (asc ''name'') @ asc '': '' @ quoted (asc ''Paracetamol'') @ [125],
      PDict [(asc ''name'', PStr (asc ''Paracetamol''))]),
     ([123] @ quoted (asc ''name'') @ asc '': '' @ quoted (asc ''Foo'') @ [125],
      PDict [(asc ''name'', PStr (asc ''Foo''))]),
     ([123] @ quoted (asc ''name'') @ asc '': '' @ quoted (asc ''Amoxicillin'') @ [125],
      PDict [(asc ''name'', PStr (asc ''Amoxicillin''))]),
     ([91, 93],
      PList []),
     ([123] @ quoted (asc ''found'') @ asc '': true, '' @ quoted (asc ''name'') @ asc '': '' @
        quoted (asc ''Paracetamol'') @ asc '', '' @ quoted (asc ''stock'') @ asc '': 42'' @ [125],
      PDict [(asc ''found'', PBool True),
             (asc ''name'', PStr (asc ''Paracetamol'')),
             (asc ''stock'', PInt 42)]),
     ([123] @ quoted (asc ''found'') @ asc '': false, '' @ quoted (asc ''error'') @ asc '': '' @
        [123] @ quoted (asc ''code'') @ asc '': '' @ quoted (asc ''NOT_FOUND'') @ asc '', '' @
        quoted (asc ''message'') @ asc '': '' @ [34] @ asc ''Medication '' @ [39] @ asc ''Foo'' @
        [39] @ asc '' not found'' @ [34, 125, 125],
      PDict [(asc ''found'', PBool False),
             (asc ''error'', PDict [(asc ''code'', PStr (asc ''NOT_FOUND'')),
                (asc ''message'', PStr (asc ''Medication '' @ [39] @ asc ''Foo'' @ [39] @ asc '' not found''))])]),
     ([123] @ quoted (asc ''ok'') @ asc '': true, '' @ quoted (asc ''name'') @ asc '': '' @
        quoted (asc ''Amoxicillin'') @ asc '', '' @ quoted (asc ''requires_prescription'') @
        asc '': true, '' @ quoted (asc ''user_has_prescription'') @ asc '': true'' @ [125],
      PDict [(asc ''ok'', PBool True),
             (asc ''name'', PStr (asc ''Amoxicillin'')),
             (asc ''requires_prescription'', PBool True),
             (asc ''user_has_prescription'', PBool True)])]"

definition sample_runtime :: runtime where
  "sample_runtime =
     \<lparr>json_dumps = (\<lambda>v. case find (\<lambda>row. snd row = v) sample_json of
                          Some row \<Rightarrow> fst row
                        | None \<Rightarrow> asc ''null''),
      json_loads = map_of sample_json,
      str_value = sample_repr,
      str_exn = sample_str_exn\<rparr>"

text \<open>
  The decision responses of the concrete runs. In the first the model asks for the stock
  of a medication that exists and for the record of one that does not; in the second it
  asks for the prescription check and leaves the user identifier out; in the third the
  argument text of the prescription check is the JSON array \<open>[]\<close>; in the fourth the
  response is given as plain mappings, with the prescription check asked for twice under
  one call id and its arguments already structured; in the fifth a reasoning item is
  followed by three calls under three call ids: a stock check with structured arguments,
  a prescription check with its arguments as text, and a prescription check with
  structured arguments that name the user. Every stream answers with one text fragment.
\<close>

definition function_call :: "ustr \<Rightarrow> pyval \<Rightarrow> ustr \<Rightarrow> pydict" where
  "function_call name arguments call_id =
     [(asc ''type'', PStr (asc ''function_call'')),
      (asc ''name'', PStr name),
      (asc ''arguments'', arguments),
      (asc ''call_id'', PStr call_id)]"

definition sample_events :: "event list" where
  "sample_events = [\<lparr>e_type = asc ''response.output_text.delta'', e_delta = asc ''Yes.''\<rparr>]"

definition unknown_medication_turn :: backend where
  "unknown_medication_turn =
     \<lparr>responses_create = (\<lambda>input. \<lparr>r_output = Some
          [function_call (asc ''check_stock'')
             (PStr ([123] @ quoted (asc ''name'') @ asc '': '' @ quoted (asc ''Paracetamol'') @ [125]))
             (asc ''call_1''),
           function_call (asc ''get_medication_by_name'')
             (PStr ([123] @ quoted (asc ''name'') @ asc '': '' @ quoted (asc ''Foo'') @ [125]))
             (asc ''call_2'')]\<rparr>),
      responses_stream = (\<lambda>input choice. sample_events)\<rparr>"

definition prescription_turn :: backend where
  "prescription_turn =
     \<lparr>responses_create = (\<lambda>input. \<lparr>r_output = Some
          [function_call (asc ''check_prescription'')
             (PStr ([123] @ quoted (asc ''name'') @ asc '': '' @ quoted (asc ''Amoxicillin'') @ [125]))
             (asc ''call_1'')]\<rparr>),
      responses_stream = (\<lambda>input choice. sample_events)\<rparr>"

definition array_arguments_turn :: backend where
  "array_arguments_turn =
     \<lparr>responses_create = (\<lambda>input. \<lparr>r_output = Some
          [function_call (asc ''check_prescription'') (PStr [91, 93]) (asc ''call_1'')]\<rparr>),
      responses_stream = (\<lambda>input choice. sample_events)\<rparr>"

definition structured_arguments_turn :: backend where
  "structured_arguments_turn =
     \<lparr>responses_create = (\<lambda>input. \<lparr>r_output = Some
          [function_call (asc ''check_prescription'')
             (PDict [(asc ''name'', PStr (asc ''Amoxicillin''))]) (asc ''call_1''),
           function_call (asc ''check_prescription'')
             (PDict [(asc ''name'', PStr (asc ''Amoxicillin''))]) (asc ''call_1'')]\<rparr>),
      responses_stream = (\<lambda>input choice. sample_events)\<rparr>"

definition mixed_arguments_output :: "pydict list" where
  "mixed_arguments_output =
     [[(asc ''type'', PStr (asc ''reasoning'')), (asc ''id'', PStr (asc ''rs_1''))],
      function_call (asc ''check_stock'')
        (PDict [(asc ''name'', PStr (asc ''Paracetamol''))]) (asc ''call_1''),
      function_call (asc ''check_prescription'')
        (PStr ([123] @ quoted (asc ''name'') @ asc '': '' @ quoted (asc ''Amoxicillin'') @ [125]))
        (asc ''call_2''),
      function_call (asc ''check_prescription'')
        (PDict [(asc ''name'', PStr (asc ''Amoxicillin'')),
                (asc ''user_id'', PStr (asc ''u001''))]) (asc ''call_3'')]"

definition mixed_arguments_turn :: backend where
  "mixed_arguments_turn =
     \<lparr>responses_create = (\<lambda>input. \<lparr>r_output = Some mixed_arguments_output\<rparr>),
      responses_stream = (\<lambda>input choice. sample_events)\<rparr>"

text \<open>What \<open>get_user\<close> returns for u001, and an extracted call.\<close>

definition u001_found :: pyval where
  "u001_found =
     PDict [(asc ''found'', PBool True),
            (asc ''user'',
               PDict [(asc ''user_id'', PStr (asc ''u001'')),
                      (asc ''name'', PStr (asc ''Einat Shvartz'')),
                      (asc ''prescriptions'',
                         PList [PStr (asc ''Amoxicillin''), PStr (asc ''Metformin'')])])]"

definition tool_call :: "ustr \<Rightarrow> pyval \<Rightarrow> ustr \<Rightarrow> pydict" where
  "tool_call name arguments call_id =
     [(asc ''name'', PStr name), (asc ''arguments'', arguments), (asc ''call_id'', PStr call_id)]"

definition paracetamol_stock_call :: pydict where
  "paracetamol_stock_call =
     tool_call (asc ''check_stock'')
       (PStr ([123] @ quoted (asc ''name'') @ asc '': '' @ quoted (asc ''Paracetamol'') @ [125]))
       (asc ''call_1'')"

definition foo_record_call :: pydict where
  "foo_record_call =
     tool_call (asc ''get_medication_by_name'')
       (PStr ([123] @ quoted (asc ''name'') @ asc '': '' @ quoted (asc ''Foo'') @ [125]))
       (asc ''call_2'')"

definition amoxicillin_prescription_call :: pydict where
  "amoxicillin_prescription_call =
     tool_call (asc ''check_prescription'')
       (PStr ([123] @ quoted (asc ''name'') @ asc '': '' @ quoted (asc ''Amoxicillin'') @ [125]))
       (asc ''call_1'')"

definition structured_prescription_call :: pydict where
  "structured_prescription_call =
     tool_call (asc ''check_prescription'')
       (PDict [(asc ''name'', PStr (asc ''Amoxicillin''))]) (asc ''call_1'')"

definition faulty_stock_call :: pydict where
  "faulty_stock_call =
     tool_call (asc ''check_stock'') (PDict [(asc ''name'', PInt 5)]) (asc ''call_0'')"

definition structured_stock_call :: pydict where
  "structured_stock_call =
     tool_call (asc ''check_stock'') (PDict [(asc ''name'', PStr (asc ''Paracetamol''))])
       (asc ''call_1'')"

definition second_prescription_call :: pydict where
  "second_prescription_call =
     tool_call (asc ''check_prescription'')
       (PStr ([123] @ quoted (asc ''name'') @ asc '': '' @ quoted (asc ''Amoxicillin'') @ [125]))
       (asc ''call_2'')"

definition complete_prescription_call :: pydict where
  "complete_prescription_call =
     tool_call (asc ''check_prescription'')
       (PDict [(asc ''name'', PStr (asc ''Amoxicillin'')),
               (asc ''user_id'', PStr (asc ''u001''))]) (asc ''call_3'')"

section \<open>Vocabulary of the properties\<close>

text \<open>
  For one extracted call: the arguments the dispatcher receives and the envelope that is
  collected for it (both meaningful when \<open>prepare_args\<close> did not raise).
\<close>

definition dispatched_args :: "runtime \<Rightarrow> ustr \<Rightarrow> pydict \<Rightarrow> pyval" where
  "dispatched_args R user_id call =
     (case prepare_args R user_id call of Inr args \<Rightarrow> args | Inl e \<Rightarrow> PNone)"

definition call_result :: "runtime \<Rightarrow> store \<Rightarrow> ustr \<Rightarrow> pydict \<Rightarrow> pyval" where
  "call_result R db user_id call =
     dispatch R db (dict_get call (asc ''name'')) (dispatched_args R user_id call)"

definition call_dispatch :: "runtime \<Rightarrow> ustr \<Rightarrow> pydict \<Rightarrow> effect" where
  "call_dispatch R user_id call =
     ToolDispatch (dict_get call (asc ''name'')) (dispatched_args R user_id call)"

definition call_output :: "runtime \<Rightarrow> store \<Rightarrow> ustr \<Rightarrow> pydict \<Rightarrow> pyval" where
  "call_output R db user_id call =
     tool_output R (dict_get call (asc ''call_id'')) (call_result R db user_id call)"

definition prepared :: "runtime \<Rightarrow> ustr \<Rightarrow> pydict \<Rightarrow> bool" where
  "prepared R user_id call = (case prepare_args R user_id call of Inr args \<Rightarrow> True | Inl e \<Rightarrow> False)"

definition is_mapping :: "pyval \<Rightarrow> bool" where
  "is_mapping v = (case v of PDict d \<Rightarrow> True | _ \<Rightarrow> False)"

text \<open>
  The items of a decision response into which the loop writes: a function-call item for
  \<open>check_prescription\<close> whose arguments are a structured mapping without the key
  \<open>user_id\<close>. Such a mapping is the object that \<open>_normalize_args\<close> returns and that
  line 219 assigns to.
\<close>

definition receives_user_id :: "pydict \<Rightarrow> bool" where
  "receives_user_id item =
     (dict_get item (asc ''type'') = PStr (asc ''function_call'')
      \<and> dict_get item (asc ''name'') = PStr (asc ''check_prescription'')
      \<and> (case dict_get item (asc ''arguments'') of
            PDict d \<Rightarrow> asc ''user_id'' \<notin> set (map fst d)
          | _ \<Rightarrow> False))"

text \<open>
  A result envelope: a mapping that starts with its discriminator (\<open>ok\<close> or
  \<open>found\<close>); on success no \<open>error\<close> entry follows, on failure exactly the
  \<open>error\<close> entry with its code and message.
\<close>

definition is_error_body :: "pyval \<Rightarrow> bool" where
  "is_error_body v =
     (case v of
        PDict [(c, PStr code), (m, PStr message)] \<Rightarrow> c = asc ''code'' \<and> m = asc ''message''
      | _ \<Rightarrow> False)"

definition is_envelope :: "pyval \<Rightarrow> bool" where
  "is_envelope result =
     (case result of
        PDict ((k, PBool b) # rest) \<Rightarrow>
          (k = asc ''ok'' \<or> k = asc ''found'') \<and>
          (if b then map_of rest (asc ''error'') = None
           else map fst rest = [asc ''error''] \<and> list_all is_error_body (map snd rest))
      | _ \<Rightarrow> False)"

text \<open>
  Equality of two code points up to the case of an ASCII letter, and of two strings
  letter by letter.
\<close>

definition same_letter :: "nat \<Rightarrow> nat \<Rightarrow> bool" where
  "same_letter a b =
     (a = b \<or> (65 \<le> a \<and> a \<le> 90 \<and> b = a + 32) \<or> (65 \<le> b \<and> b \<le> 90 \<and> a = b + 32))"

definition case_variant :: "ustr \<Rightarrow> ustr \<Rightarrow> bool" where
  "case_variant q s = list_all2 same_letter q s"

section \<open>Properties\<close>

subsection \<open>Auxiliary facts\<close>

lemmas tool_defs = check_prescription_def get_user_def get_medication_by_name_def check_stock_def
  find_user_by_id_def find_med_by_name_def

lemmas data_defs = shipped_def shipped_USERS_def shipped_MEDICATIONS_def

lemmas str_defs = asc_def strip_def lower_def lower_cp_def isspace_def

lemma looks_hebrew_iff: "looks_hebrew s = (\<exists>ch\<in>set s. 1424 \<le> ch \<and> ch \<le> 1535)"
  by (induction s) auto

text \<open>The loop over the calls, in closed form.\<close>

lemma tool_loop_prepared:
  "list_all (prepared R user_id) calls \<Longrightarrow>
   tool_loop R db user_id calls =
     (map (call_dispatch R user_id) calls, Inr (map (call_output R db user_id) calls))"
  by (induction calls)
     (auto simp: prepared_def call_dispatch_def call_output_def call_result_def dispatched_args_def
           Let_def split: sum.splits)

lemma tool_loop_completed:
  "tool_loop R db user_id calls = (dispatched, Inr tool_outputs) \<Longrightarrow>
   list_all (prepared R user_id) calls"
  by (induction calls arbitrary: dispatched tool_outputs)
     (auto simp: prepared_def Let_def split: sum.splits prod.splits)

lemma tool_loop_effects:
  "fst (tool_loop R db user_id calls) =
     map (call_dispatch R user_id) (takeWhile (prepared R user_id) calls)"
  by (induction calls)
     (auto simp: prepared_def call_dispatch_def dispatched_args_def Let_def split: sum.splits prod.splits)

text \<open>Every result the dispatch of a call collects is an envelope.\<close>

lemma is_envelope_error:
  "is_envelope (PDict [(asc ''ok'', PBool False), (asc ''error'', error_body code message)])"
  "is_envelope (PDict [(asc ''found'', PBool False), (asc ''error'', error_body code message)])"
  by (simp_all add: is_envelope_def is_error_body_def error_body_def)

lemma is_envelope_success:
  "is_envelope (PDict [(asc ''found'', PBool True), (asc ''medication'', v)])"
  "is_envelope (PDict [(asc ''found'', PBool True), (asc ''name'', v), (asc ''stock'', w)])"
  "is_envelope (PDict [(asc ''found'', PBool True), (asc ''user'', v)])"
  "is_envelope (PDict [(asc ''ok'', PBool True), (asc ''name'', a),
                       (asc ''requires_prescription'', b), (asc ''user_has_prescription'', c)])"
  by (simp_all add: is_envelope_def asc_def)

lemma get_medication_by_name_envelope:
  "get_medication_by_name R db name = Inr result \<Longrightarrow> is_envelope result"
  by (auto simp: get_medication_by_name_def is_envelope_error is_envelope_success
      split: sum.splits option.splits)

lemma check_stock_envelope:
  "check_stock R db name = Inr result \<Longrightarrow> is_envelope result"
  by (auto simp: check_stock_def is_envelope_error is_envelope_success
      split: sum.splits option.splits)

lemma check_prescription_envelope:
  "check_prescription R db user_id name = Inr result \<Longrightarrow> is_envelope result"
  by (auto simp: check_prescription_def Let_def is_envelope_error is_envelope_success
      split: sum.splits option.splits)

lemma get_user_envelope:
  "get_user R db user_id = Inr result \<Longrightarrow> is_envelope result"
  by (auto simp: get_user_def is_envelope_error is_envelope_success
      split: sum.splits option.splits)

lemma run_tool_envelope:
  "run_tool R db tool_name args = Inr result \<Longrightarrow> is_envelope result"
  by (auto simp: run_tool_def is_envelope_error split: if_splits sum.splits
      dest: get_medication_by_name_envelope check_stock_envelope check_prescription_envelope)

lemma dispatch_envelope: "is_envelope (dispatch R db name args)"
  by (cases "run_tool R db name args")
     (auto simp: dispatch_def is_envelope_error dest: run_tool_envelope)

text \<open>Reading an envelope back in the short-circuit scan.\<close>

lemma is_error_body_cases:
  "is_error_body v \<Longrightarrow> \<exists>code message. v = error_body code message"
  unfolding is_error_body_def error_body_def
  by (simp split: pyval.splits list.splits prod.splits)

lemma is_envelope_cases:
  assumes "is_envelope result"
  shows "(\<exists>k rest. result = PDict ((k, PBool True) # rest)
            \<and> (k = asc ''ok'' \<or> k = asc ''found'') \<and> map_of rest (asc ''error'') = None)
       \<or> (\<exists>k code message.
            result = PDict [(k, PBool False), (asc ''error'', error_body code message)]
            \<and> (k = asc ''ok'' \<or> k = asc ''found''))"
proof (cases result)
  case (PDict d)
  show ?thesis
  proof (cases d)
    case Nil
    with PDict assms show ?thesis by (simp add: is_envelope_def)
  next
    case (Cons kv rest)
    obtain k v where kv: "kv = (k, v)" by (cases kv)
    show ?thesis
    proof (cases v)
      case (PBool b)
      show ?thesis
      proof (cases b)
        case True
        with PDict Cons kv PBool assms show ?thesis by (simp add: is_envelope_def)
      next
        case False
        with PDict Cons kv PBool assms have
          m: "map fst rest = [asc ''error'']" "list_all is_error_body (map snd rest)"
          and k: "k = asc ''ok'' \<or> k = asc ''found''"
          by (auto simp: is_envelope_def)
        from m obtain body where
          r: "rest = [(asc ''error'', body)]" "is_error_body body"
          by (cases rest) auto
        from is_error_body_cases [OF r(2)] obtain code message where
          "body = error_body code message" by blast
        with PDict Cons kv PBool False r k show ?thesis by auto
      qed
    qed (use PDict Cons kv assms in \<open>simp_all add: is_envelope_def\<close>)
  qed
qed (use assms in \<open>simp_all add: is_envelope_def\<close>)


lemma envelope_scan:
  assumes "is_envelope result"
  shows "\<exists>err. py_get result (asc ''error'') (PDict []) = Inr (PDict err)
               \<and> py_get (PDict err) (asc ''code'') PNone = Inr (error_code result)"
  using is_envelope_cases [OF assms]
  by (auto simp: py_get_def dict_get_or_def dict_get_def error_code_def error_body_def asc_def)

lemma scan_step:
  assumes "is_envelope result" and "json_loads R (json_dumps R result) = Some result"
  shows "scan_not_found R (tool_output R call_id result # rest) =
           (if error_code result = PStr (asc ''NOT_FOUND'') then Inr True
            else scan_not_found R rest)"
proof -
  have l: "load_output R (tool_output R call_id result) = Some result"
    using assms(2) by (simp add: load_output_def tool_output_def py_get_def dict_get_or_def asc_def)
  from envelope_scan [OF assms(1)] obtain err where
    e: "py_get result (asc ''error'') (PDict []) = Inr (PDict err)"
       "py_get (PDict err) (asc ''code'') PNone = Inr (error_code result)" by blast
  show ?thesis using l e by simp
qed

text \<open>The scan over the collected outputs, and the run once the user gate is passed.\<close>

lemma scan_outputs:
  assumes "list_all (\<lambda>c. json_loads R (json_dumps R (call_result R db user_id c))
                         = Some (call_result R db user_id c)) calls"
  shows "scan_not_found R (map (call_output R db user_id) calls) =
           Inr (list_ex (\<lambda>c. error_code (call_result R db user_id c) = PStr (asc ''NOT_FOUND'')) calls)"
  using assms
proof (induction calls)
  case Nil
  then show ?case by simp
next
  case (Cons c calls)
  have env: "is_envelope (call_result R db user_id c)"
    by (simp add: call_result_def dispatch_envelope)
  from Cons.prems have rt: "json_loads R (json_dumps R (call_result R db user_id c))
                         = Some (call_result R db user_id c)" by simp
  show ?case
    using scan_step [OF env rt] Cons by (simp add: call_output_def)
qed

lemma gate_passed:
  assumes "get_user R db (PStr user_id) = Inr user_res"
      and "field user_res (asc ''found'') = Some (PBool True)"
  shows "stream_agent_reply R B db user_id user_message =
     (let base = base_input R user_id user_res user_message;
          resp = responses_create B base;
          tool_calls = extract_function_calls resp
      in if tool_calls = [] then
           \<lparr>effects = DecisionCall base # StreamCall base None
                        # relay (responses_stream B base None),
            ending = Returned\<rparr>
         else
           (case tool_loop R db user_id tool_calls of
              (dispatched, Inl e) \<Rightarrow>
                \<lparr>effects = DecisionCall base # dispatched, ending = Raised e\<rparr>
            | (dispatched, Inr tool_outputs) \<Rightarrow>
                (case scan_not_found R tool_outputs of
                   Inl e \<Rightarrow>
                     \<lparr>effects = DecisionCall base # dispatched, ending = Raised e\<rparr>
                 | Inr hit \<Rightarrow>
                     if hit then
                       \<lparr>effects = DecisionCall base # dispatched
                                    @ [Yield (not_found_message user_message)],
                        ending = Returned\<rparr>
                     else
                       \<lparr>effects = DecisionCall base # dispatched
                            @ final_answer B base
                                (map_option (map (item_after_tools user_id)) (r_output resp))
                                tool_outputs,
                        ending = Returned\<rparr>)))"
  using assms
  by (auto simp: stream_agent_reply_def field_def dict_get_def split: pyval.splits)

text \<open>The output sequence of the decision response in step 5.\<close>

lemma extract_nonempty_output:
  "extract_function_calls resp \<noteq> [] \<Longrightarrow> \<exists>item items. r_output resp = Some (item # items)"
  by (cases "r_output resp") (auto simp: extract_function_calls_def neq_Nil_conv split: if_splits)


text \<open>The dispatches made by a run, and the injection of the user identifier.\<close>

lemma dict_set_absent: "k \<notin> set (map fst d) \<Longrightarrow> dict_set d k v = d @ [(k, v)]"
  by (induction d) auto

lemma map_of_append_new:
  "k \<notin> set (map fst d) \<Longrightarrow> map_of (d @ [(k, v)]) k = Some v"
  "k' \<noteq> k \<Longrightarrow> map_of (d @ [(k, v)]) k' = map_of d k'"
  by (induction d) auto

lemma run_effects_prefix:
  assumes "get_user R db (PStr user_id) = Inr user_res"
      and "field user_res (asc ''found'') = Some (PBool True)"
      and "extract_function_calls
             (responses_create B (base_input R user_id user_res user_message)) = calls"
      and "calls \<noteq> []"
  shows "\<exists>more. effects (stream_agent_reply R B db user_id user_message) =
           DecisionCall (base_input R user_id user_res user_message)
           # fst (tool_loop R db user_id calls) @ more"
  using assms(3,4) unfolding gate_passed [OF assms(1,2)]
  by (auto simp: Let_def split: prod.splits sum.splits)

lemma prepare_check_prescription:
  assumes "dict_get call (asc ''name'') = PStr (asc ''check_prescription'')"
      and "normalize_args R (dict_get call (asc ''arguments'')) = PDict d"
  shows "prepare_args R user_id call =
           Inr (PDict (if asc ''user_id'' \<in> set (map fst d) then d
                       else d @ [(asc ''user_id'', PStr user_id)]))"
  using assms
  by (simp add: prepare_args_def ensure_user_id_def py_in_def set_item_def dict_set_absent)

lemma mapping_prepared:
  "is_mapping (normalize_args R (dict_get call (asc ''arguments''))) \<Longrightarrow> prepared R user_id call"
  by (auto simp: is_mapping_def prepared_def prepare_args_def ensure_user_id_def py_in_def
      set_item_def split: pyval.splits)

lemma dispatch_unknown_tool:
  assumes "name \<noteq> PStr (asc ''get_medication_by_name'')"
      and "name \<noteq> PStr (asc ''check_stock'')"
      and "name \<noteq> PStr (asc ''check_prescription'')"
  shows "dispatch R db name args =
           PDict [(asc ''ok'', PBool False),
                  (asc ''error'', error_body (asc ''UNKNOWN_TOOL'')
                     (asc ''Tool '' @ [39] @ py_str R name @ [39] @ asc '' not implemented''))]"
  using assms by (simp add: dispatch_def run_tool_def)

text \<open>Facts about the concrete runs.\<close>

lemmas sample_defs = sample_runtime_def sample_json_def quoted_def
lemmas call_defs = tool_call_def dict_get_def prepare_args_def normalize_args_def ensure_user_id_def
  py_in_def set_item_def
lemmas sample_call_defs = paracetamol_stock_call_def foo_record_call_def
  amoxicillin_prescription_call_def structured_prescription_call_def

lemma u001_gate:
  "get_user sample_runtime shipped (PStr (asc ''u001'')) = Inr u001_found"
  "field u001_found (asc ''found'') = Some (PBool True)"
  by (simp_all add: tool_defs data_defs str_defs u001_found_def field_def)

lemma unknown_medication_calls:
  "extract_function_calls (responses_create unknown_medication_turn input) =
     [paracetamol_stock_call, foo_record_call]"
  by (simp add: extract_function_calls_def unknown_medication_turn_def function_call_def
      sample_call_defs tool_call_def dict_get_def asc_def)

lemma paracetamol_stock_args:
  "prepare_args sample_runtime user_id paracetamol_stock_call =
     Inr (PDict [(asc ''name'', PStr (asc ''Paracetamol''))])"
  by (simp add: sample_call_defs call_defs sample_defs asc_def)

lemma foo_record_args:
  "prepare_args sample_runtime user_id foo_record_call =
     Inr (PDict [(asc ''name'', PStr (asc ''Foo''))])"
  by (simp add: sample_call_defs call_defs sample_defs asc_def)

lemma paracetamol_stock_result:
  "call_result sample_runtime shipped user_id paracetamol_stock_call =
     PDict [(asc ''found'', PBool True), (asc ''name'', PStr (asc ''Paracetamol'')),
            (asc ''stock'', PInt 42)]"
  unfolding call_result_def dispatched_args_def paracetamol_stock_args
  by (simp add: sample_call_defs tool_call_def dict_get_def dispatch_def run_tool_def
      bind_kwargs_def tool_defs data_defs str_defs)

lemma foo_record_result:
  "call_result sample_runtime shipped user_id foo_record_call =
     PDict [(asc ''found'', PBool False),
            (asc ''error'', error_body (asc ''NOT_FOUND'')
               (asc ''Medication '' @ [39] @ asc ''Foo'' @ [39] @ asc '' not found''))]"
  unfolding call_result_def dispatched_args_def foo_record_args
  by (simp add: sample_call_defs tool_call_def dict_get_def dispatch_def run_tool_def
      bind_kwargs_def tool_defs data_defs str_defs med_not_found_message_def py_str_def)

lemma sample_codec_stock:
  "json_loads sample_runtime (json_dumps sample_runtime
      (PDict [(asc ''found'', PBool True), (asc ''name'', PStr (asc ''Paracetamol'')),
              (asc ''stock'', PInt 42)])) =
   Some (PDict [(asc ''found'', PBool True), (asc ''name'', PStr (asc ''Paracetamol'')),
              (asc ''stock'', PInt 42)])"
  by (simp add: sample_defs asc_def)

lemma sample_codec_foo:
  "json_loads sample_runtime (json_dumps sample_runtime
      (PDict [(asc ''found'', PBool False),
              (asc ''error'', error_body (asc ''NOT_FOUND'')
                 (asc ''Medication '' @ [39] @ asc ''Foo'' @ [39] @ asc '' not found''))])) =
   Some (PDict [(asc ''found'', PBool False),
              (asc ''error'', error_body (asc ''NOT_FOUND'')
                 (asc ''Medication '' @ [39] @ asc ''Foo'' @ [39] @ asc '' not found''))])"
  by (simp add: sample_defs asc_def error_body_def)

lemma error_code_error_envelope:
  "error_code (PDict [(asc ''found'', PBool False), (asc ''error'', error_body code message)])
     = PStr code"
  "error_code (PDict [(asc ''ok'', PBool False), (asc ''error'', error_body code message)])
     = PStr code"
  by (simp_all add: error_code_def error_body_def dict_get_def asc_def)

lemma prescription_calls:
  "extract_function_calls (responses_create prescription_turn input) =
     [amoxicillin_prescription_call]"
  by (simp add: extract_function_calls_def prescription_turn_def function_call_def
      sample_call_defs tool_call_def dict_get_def asc_def)

lemma amoxicillin_prescription_name:
  "dict_get amoxicillin_prescription_call (asc ''name'') = PStr (asc ''check_prescription'')"
  by (simp add: sample_call_defs tool_call_def dict_get_def)

lemma amoxicillin_prescription_normalized:
  "normalize_args sample_runtime (dict_get amoxicillin_prescription_call (asc ''arguments'')) =
     PDict [(asc ''name'', PStr (asc ''Amoxicillin''))]"
  by (simp add: sample_call_defs tool_call_def dict_get_def normalize_args_def sample_defs asc_def)

lemma tool_call_fields:
  "dict_get (tool_call n a c) (asc ''name'') = PStr n"
  "dict_get (tool_call n a c) (asc ''arguments'') = a"
  "dict_get (tool_call n a c) (asc ''call_id'') = PStr c"
  by (simp_all add: tool_call_def dict_get_def asc_def)

lemma faulty_stock_args:
  "prepare_args sample_runtime user_id faulty_stock_call = Inr (PDict [(asc ''name'', PInt 5)])"
  by (simp add: faulty_stock_call_def call_defs asc_def)

lemma faulty_stock_run:
  "run_tool sample_runtime shipped (PStr (asc ''check_stock'')) (PDict [(asc ''name'', PInt 5)]) =
     Inl (AttributeError (PInt 5) (asc ''strip''))"
  by (simp add: run_tool_def bind_kwargs_def dict_get_def tool_defs)

lemma sample_codec_prescription:
  "json_loads sample_runtime (json_dumps sample_runtime
      (PDict [(asc ''ok'', PBool True), (asc ''name'', PStr (asc ''Amoxicillin'')),
              (asc ''requires_prescription'', PBool True),
              (asc ''user_has_prescription'', PBool True)])) =
   Some (PDict [(asc ''ok'', PBool True), (asc ''name'', PStr (asc ''Amoxicillin'')),
              (asc ''requires_prescription'', PBool True),
              (asc ''user_has_prescription'', PBool True)])"
  by (simp add: sample_defs asc_def)

lemma error_code_prescription:
  "error_code (PDict [(asc ''ok'', PBool True), (asc ''name'', PStr (asc ''Amoxicillin'')),
              (asc ''requires_prescription'', PBool True),
              (asc ''user_has_prescription'', PBool True)]) = PNone"
  by (simp add: error_code_def asc_def)

lemma amoxicillin_prescription_args:
  "prepare_args sample_runtime (asc ''u001'') amoxicillin_prescription_call =
     Inr (PDict [(asc ''name'', PStr (asc ''Amoxicillin'')), (asc ''user_id'', PStr (asc ''u001''))])"
  by (simp add: amoxicillin_prescription_call_def call_defs sample_defs asc_def)

lemma structured_prescription_args:
  "prepare_args sample_runtime (asc ''u001'') structured_prescription_call =
     Inr (PDict [(asc ''name'', PStr (asc ''Amoxicillin'')), (asc ''user_id'', PStr (asc ''u001''))])"
  by (simp add: structured_prescription_call_def call_defs asc_def)

lemma prescription_dispatch:
  "dispatch sample_runtime shipped (PStr (asc ''check_prescription''))
     (PDict [(asc ''name'', PStr (asc ''Amoxicillin'')), (asc ''user_id'', PStr (asc ''u001''))]) =
   PDict [(asc ''ok'', PBool True), (asc ''name'', PStr (asc ''Amoxicillin'')),
          (asc ''requires_prescription'', PBool True),
          (asc ''user_has_prescription'', PBool True)]"
  by (simp add: dispatch_def run_tool_def bind_kwargs_def dict_get_def tool_defs data_defs str_defs)

lemma amoxicillin_prescription_result:
  "call_result sample_runtime shipped (asc ''u001'') amoxicillin_prescription_call =
   PDict [(asc ''ok'', PBool True), (asc ''name'', PStr (asc ''Amoxicillin'')),
          (asc ''requires_prescription'', PBool True),
          (asc ''user_has_prescription'', PBool True)]"
  unfolding call_result_def dispatched_args_def amoxicillin_prescription_args
  by (simp add: amoxicillin_prescription_call_def tool_call_fields prescription_dispatch)

lemma structured_prescription_result:
  "call_result sample_runtime shipped (asc ''u001'') structured_prescription_call =
   PDict [(asc ''ok'', PBool True), (asc ''name'', PStr (asc ''Amoxicillin'')),
          (asc ''requires_prescription'', PBool True),
          (asc ''user_has_prescription'', PBool True)]"
  unfolding call_result_def dispatched_args_def structured_prescription_args
  by (simp add: structured_prescription_call_def tool_call_fields prescription_dispatch)

lemma relay_sample_events: "relay sample_events = [Yield (asc ''Yes.'')]"
proof -
  have "asc ''response.output_text.delta'' \<noteq> asc ''response.error''"
    by (simp add: asc_def)
  then show ?thesis by (simp add: sample_events_def)
qed

lemma prescription_turn_output:
  "r_output (responses_create prescription_turn input) =
     Some [function_call (asc ''check_prescription'')
             (PStr ([123] @ quoted (asc ''name'') @ asc '': '' @ quoted (asc ''Amoxicillin'') @ [125]))
             (asc ''call_1'')]"
  by (simp add: prescription_turn_def)

lemma structured_turn_output:
  "r_output (responses_create structured_arguments_turn input) =
     Some [function_call (asc ''check_prescription'')
             (PDict [(asc ''name'', PStr (asc ''Amoxicillin''))]) (asc ''call_1''),
           function_call (asc ''check_prescription'')
             (PDict [(asc ''name'', PStr (asc ''Amoxicillin''))]) (asc ''call_1'')]"
  by (simp add: structured_arguments_turn_def)

lemma structured_turn_calls:
  "extract_function_calls (responses_create structured_arguments_turn input) =
     [structured_prescription_call, structured_prescription_call]"
  by (simp add: extract_function_calls_def structured_arguments_turn_def function_call_def
      structured_prescription_call_def tool_call_def dict_get_def asc_def)

lemma structured_item_after_tools:
  "item_after_tools (asc ''u001'')
     (function_call (asc ''check_prescription'')
        (PDict [(asc ''name'', PStr (asc ''Amoxicillin''))]) (asc ''call_1'')) =
   function_call (asc ''check_prescription'')
     (PDict [(asc ''name'', PStr (asc ''Amoxicillin'')), (asc ''user_id'', PStr (asc ''u001''))])
     (asc ''call_1'')"
  by (simp add: item_after_tools_def function_call_def dict_get_def ensure_user_id_def py_in_def
      set_item_def asc_def)

subsection \<open>The short-circuit on a medication that is not found\<close>

text \<open>
  Claim C1. Take a request that passes the user gate and whose tool calls are all dispatched.
  When \<open>json.loads\<close> gives back each collected envelope from its \<open>json.dumps\<close>
  text and at least one envelope carries the error code \<open>NOT_FOUND\<close>, the run is:
  the decision call, one dispatch for each call, one apology, return. The apology is
  the Hebrew one exactly when the user message has a code point in U+0590..U+05FF, the
  English one otherwise. No streaming call is made, whatever the other envelopes are.
\<close>

theorem not_found_short_circuit:
  assumes gate: "get_user R db (PStr user_id) = Inr user_res"
                "field user_res (asc ''found'') = Some (PBool True)"
      and calls: "extract_function_calls
                    (responses_create B (base_input R user_id user_res user_message)) = calls"
      and completed: "tool_loop R db user_id calls = (dispatched, Inr tool_outputs)"
      and codec: "list_all (\<lambda>c. json_loads R (json_dumps R (call_result R db user_id c))
                              = Some (call_result R db user_id c)) calls"
      and hit: "list_ex (\<lambda>c. error_code (call_result R db user_id c) = PStr (asc ''NOT_FOUND''))
                  calls"
  shows "stream_agent_reply R B db user_id user_message =
           \<lparr>effects = DecisionCall (base_input R user_id user_res user_message)
                        # map (call_dispatch R user_id) calls
                        @ [Yield (if looks_hebrew user_message then not_found_message_he
                                  else not_found_message_en)],
            ending = Returned\<rparr>
         \<and> looks_hebrew user_message = (\<exists>ch\<in>set user_message. 1424 \<le> ch \<and> ch \<le> 1535)"
proof -
  have p: "list_all (prepared R user_id) calls"
    using completed by (rule tool_loop_completed)
  have l: "tool_loop R db user_id calls =
             (map (call_dispatch R user_id) calls, Inr (map (call_output R db user_id) calls))"
    using p by (rule tool_loop_prepared)
  have s: "scan_not_found R (map (call_output R db user_id) calls) = Inr True"
    using scan_outputs [OF codec] hit by simp
  have n: "calls \<noteq> []" using hit by auto
  show ?thesis
    using gate_passed [OF gate, of B user_message] calls l s n
    by (simp add: Let_def not_found_message_def looks_hebrew_iff)
qed

theorem not_found_short_circuit_witness:
  "get_user sample_runtime shipped (PStr (asc ''u001'')) = Inr u001_found
   \<and> field u001_found (asc ''found'') = Some (PBool True)
   \<and> extract_function_calls
         (responses_create unknown_medication_turn
            (base_input sample_runtime (asc ''u001'') u001_found (asc ''Do you have Foo?''))) =
       [paracetamol_stock_call, foo_record_call]
   \<and> call_result sample_runtime shipped (asc ''u001'') paracetamol_stock_call =
       PDict [(asc ''found'', PBool True), (asc ''name'', PStr (asc ''Paracetamol'')),
              (asc ''stock'', PInt 42)]
   \<and> error_code (call_result sample_runtime shipped (asc ''u001'') foo_record_call) =
       PStr (asc ''NOT_FOUND'')
   \<and> \<not> looks_hebrew (asc ''Do you have Foo?'')
   \<and> stream_agent_reply sample_runtime unknown_medication_turn shipped (asc ''u001'')
         (asc ''Do you have Foo?'') =
       \<lparr>effects =
          [DecisionCall (base_input sample_runtime (asc ''u001'') u001_found
                           (asc ''Do you have Foo?'')),
           ToolDispatch (PStr (asc ''check_stock''))
             (PDict [(asc ''name'', PStr (asc ''Paracetamol''))]),
           ToolDispatch (PStr (asc ''get_medication_by_name''))
             (PDict [(asc ''name'', PStr (asc ''Foo''))]),
           Yield not_found_message_en],
        ending = Returned\<rparr>"
proof -
  let ?R = sample_runtime and ?u = "asc ''u001''" and ?msg = "asc ''Do you have Foo?''"
  have p: "list_all (prepared ?R ?u) [paracetamol_stock_call, foo_record_call]"
    by (simp add: prepared_def paracetamol_stock_args foo_record_args)
  have codec: "list_all (\<lambda>c. json_loads ?R (json_dumps ?R (call_result ?R shipped ?u c))
                              = Some (call_result ?R shipped ?u c))
                 [paracetamol_stock_call, foo_record_call]"
  proof -
    have "json_loads ?R (json_dumps ?R (call_result ?R shipped ?u paracetamol_stock_call))
            = Some (call_result ?R shipped ?u paracetamol_stock_call)"
      unfolding paracetamol_stock_result by (rule sample_codec_stock)
    moreover
    have "json_loads ?R (json_dumps ?R (call_result ?R shipped ?u foo_record_call))
            = Some (call_result ?R shipped ?u foo_record_call)"
      unfolding foo_record_result by (rule sample_codec_foo)
    ultimately show ?thesis by simp
  qed
  have e2: "error_code (call_result ?R shipped ?u foo_record_call) = PStr (asc ''NOT_FOUND'')"
    unfolding foo_record_result by (rule error_code_error_envelope)
  have hit: "list_ex (\<lambda>c. error_code (call_result ?R shipped ?u c) = PStr (asc ''NOT_FOUND''))
                  [paracetamol_stock_call, foo_record_call]"
    using e2 by simp
  have h: "\<not> looks_hebrew ?msg" by (simp add: asc_def)
  have d: "map (call_dispatch ?R ?u) [paracetamol_stock_call, foo_record_call] =
      [ToolDispatch (PStr (asc ''check_stock'')) (PDict [(asc ''name'', PStr (asc ''Paracetamol''))]),
       ToolDispatch (PStr (asc ''get_medication_by_name'')) (PDict [(asc ''name'', PStr (asc ''Foo''))])]"
    by (simp add: call_dispatch_def dispatched_args_def paracetamol_stock_args foo_record_args)
       (simp add: sample_call_defs tool_call_def dict_get_def asc_def)
  show ?thesis
    using not_found_short_circuit [where user_message = ?msg, OF u001_gate
        unknown_medication_calls tool_loop_prepared [OF p] codec hit]
      u001_gate unknown_medication_calls paracetamol_stock_result e2 h d
    by simp
qed

subsection \<open>The identity gate\<close>

text \<open>
  Claim C2. When \<open>get_user\<close> reports the user absent (\<open>found\<close> is false), the
  generator yields one message and returns: the run has no other effect, so no decision
  call, no streaming call and no tool dispatch. The message is the Hebrew one exactly
  when \<open>_looks_hebrew\<close> holds of the incoming user message, the English one otherwise.
\<close>

theorem unknown_user_gate:
  assumes "get_user R db (PStr user_id) = Inr user_res"
      and "field user_res (asc ''found'') = Some (PBool False)"
  shows "stream_agent_reply R B db user_id user_message =
           \<lparr>effects = [Yield (if looks_hebrew user_message then unknown_user_message_he user_id
                              else unknown_user_message_en user_id)],
            ending = Returned\<rparr>"
  using assms
  by (auto simp: stream_agent_reply_def field_def dict_get_def unknown_user_message_def
      split: pyval.splits)

theorem unknown_user_gate_witness:
  "get_user sample_runtime shipped (PStr (asc ''u999'')) =
     Inr (PDict [(asc ''found'', PBool False),
                 (asc ''error'', error_body (asc ''UNKNOWN_USER'')
                                   (asc ''User '' @ [39] @ asc ''u999'' @ [39] @ asc '' not found''))])
   \<and> field (PDict [(asc ''found'', PBool False),
                 (asc ''error'', error_body (asc ''UNKNOWN_USER'')
                                   (asc ''User '' @ [39] @ asc ''u999'' @ [39] @ asc '' not found''))])
         (asc ''found'') = Some (PBool False)
   \<and> \<not> looks_hebrew (asc ''Do you have Ibuprofen?'')
   \<and> stream_agent_reply sample_runtime prescription_turn shipped (asc ''u999'')
         (asc ''Do you have Ibuprofen?'') =
       \<lparr>effects = [Yield (unknown_user_message_en (asc ''u999''))], ending = Returned\<rparr>"
proof -
  have g: "get_user sample_runtime shipped (PStr (asc ''u999'')) =
     Inr (PDict [(asc ''found'', PBool False),
                 (asc ''error'', error_body (asc ''UNKNOWN_USER'')
                                   (asc ''User '' @ [39] @ asc ''u999'' @ [39] @ asc '' not found''))])"
    by (simp add: tool_defs data_defs str_defs user_not_found_message_def py_str_def)
  have f: "field (PDict [(asc ''found'', PBool False),
                 (asc ''error'', error_body (asc ''UNKNOWN_USER'')
                                   (asc ''User '' @ [39] @ asc ''u999'' @ [39] @ asc '' not found''))])
         (asc ''found'') = Some (PBool False)"
    by (simp add: field_def)
  have h: "\<not> looks_hebrew (asc ''Do you have Ibuprofen?'')"
    by (simp add: asc_def)
  show ?thesis
    using unknown_user_gate [OF g f, of prescription_turn "asc ''Do you have Ibuprofen?''"] g f h
    by simp
qed

subsection \<open>The input of the final call\<close>

lemma filter_distinct_key:
  "distinct (map f xs) \<Longrightarrow> x \<in> set xs \<Longrightarrow> filter (\<lambda>y. f y = f x) xs = [x]"
proof (induction xs)
  case Nil
  then show ?case by simp
next
  case (Cons a xs)
  show ?case
  proof (cases "a = x")
    case True
    have "f x \<notin> f ` set xs"
      using Cons.prems(1) True by simp
    then have "\<And>y. y \<in> set xs \<Longrightarrow> f y \<noteq> f x"
      by (metis imageI)
    then have "filter (\<lambda>y. f y = f x) xs = []"
      by (simp add: filter_empty_conv)
    with True show ?thesis by simp
  next
    case False
    with Cons.prems have x: "x \<in> set xs" and d: "distinct (map f xs)" and "f a \<noteq> f x"
      by (auto simp: image_iff)
    with Cons.IH show ?thesis by simp
  qed
qed

lemma call_output_call_id:
  "field (call_output R db user_id call) (asc ''call_id'') = Some (dict_get call (asc ''call_id''))"
  by (simp add: call_output_def tool_output_def field_def asc_def)

lemma extract_loop_call_ids:
  "map (\<lambda>call. dict_get call (asc ''call_id'')) (extract_loop output) =
     map (\<lambda>item. dict_get item (asc ''call_id''))
       (filter (\<lambda>item. dict_get item (asc ''type'') = PStr (asc ''function_call'')) output)"
  by (induction "output") (simp_all add: dict_get_def asc_def)

text \<open>
  The loop leaves an item of the response as it is unless the item is a function call
  for \<open>check_prescription\<close> whose arguments are a mapping without \<open>user_id\<close>;
  into that one it writes.
\<close>

lemma dict_set_same: "map_of d k = Some v \<Longrightarrow> dict_set d k v = d"
  by (induction d) (auto split: if_splits)

lemma dict_get_dict_set: "dict_get (dict_set d k v) k = v"
  by (induction d) (auto simp: dict_get_def)

lemma dict_get_mapping:
  "dict_get item k = PDict d \<Longrightarrow> map_of item k = Some (PDict d)"
  by (auto simp: dict_get_def split: option.splits)

lemma item_after_tools_untouched:
  "(item_after_tools user_id item = item) = (\<not> receives_user_id item)"
proof (cases "dict_get item (asc ''type'') = PStr (asc ''function_call'')")
  case False
  then show ?thesis by (simp add: item_after_tools_def receives_user_id_def)
next
  case call: True
  show ?thesis
  proof (cases "dict_get item (asc ''arguments'')")
    case (PDict d)
    note same = dict_set_same [OF dict_get_mapping [OF PDict]]
    show ?thesis
    proof (cases "dict_get item (asc ''name'') = PStr (asc ''check_prescription'')
                  \<and> asc ''user_id'' \<notin> set (map fst d)")
      case True
      have "dict_get (dict_set item (asc ''arguments'')
                       (PDict (dict_set d (asc ''user_id'') (PStr user_id)))) (asc ''arguments'')
              \<noteq> dict_get item (asc ''arguments'')"
        unfolding dict_get_dict_set PDict using True by (simp add: dict_set_absent)
      then have "dict_set item (asc ''arguments'')
                   (PDict (dict_set d (asc ''user_id'') (PStr user_id))) \<noteq> item"
        by metis
      with True call PDict show ?thesis
        by (simp add: item_after_tools_def receives_user_id_def ensure_user_id_def py_in_def
            set_item_def)
    next
      case False
      with call PDict same show ?thesis
        by (auto simp: item_after_tools_def receives_user_id_def ensure_user_id_def py_in_def
            set_item_def)
    qed
  qed (simp_all add: item_after_tools_def receives_user_id_def call)
qed

lemma admitted_items_untouched:
  "list_all (\<lambda>item. \<not> receives_user_id item) output \<Longrightarrow>
   map (item_after_tools user_id) output = output"
  by (induction "output") (simp_all add: item_after_tools_untouched)


text \<open>The fifth decision response: its calls, their arguments and their results.\<close>

lemma mixed_turn_output:
  "r_output (responses_create mixed_arguments_turn input) = Some mixed_arguments_output"
  by (simp add: mixed_arguments_turn_def)

lemma mixed_turn_calls:
  "extract_function_calls (responses_create mixed_arguments_turn input) =
     [structured_stock_call, second_prescription_call, complete_prescription_call]"
  by (simp add: extract_function_calls_def mixed_arguments_turn_def mixed_arguments_output_def
      function_call_def structured_stock_call_def second_prescription_call_def
      complete_prescription_call_def tool_call_def dict_get_def asc_def)

lemma mixed_output_admitted:
  "list_all (\<lambda>item. \<not> receives_user_id item) mixed_arguments_output"
  by (simp add: mixed_arguments_output_def receives_user_id_def function_call_def dict_get_def
      asc_def)

lemma mixed_output_structured:
  "map (\<lambda>item. is_mapping (dict_get item (asc ''arguments''))) mixed_arguments_output
     = [False, True, False, True]"
  by (simp add: mixed_arguments_output_def is_mapping_def function_call_def dict_get_def asc_def)

lemma structured_stock_args:
  "prepare_args sample_runtime user_id structured_stock_call =
     Inr (PDict [(asc ''name'', PStr (asc ''Paracetamol''))])"
  by (simp add: structured_stock_call_def call_defs asc_def)

lemma second_prescription_args:
  "prepare_args sample_runtime (asc ''u001'') second_prescription_call =
     Inr (PDict [(asc ''name'', PStr (asc ''Amoxicillin'')), (asc ''user_id'', PStr (asc ''u001''))])"
  by (simp add: second_prescription_call_def call_defs sample_defs asc_def)

lemma complete_prescription_args:
  "prepare_args sample_runtime user_id complete_prescription_call =
     Inr (PDict [(asc ''name'', PStr (asc ''Amoxicillin'')), (asc ''user_id'', PStr (asc ''u001''))])"
  by (simp add: complete_prescription_call_def call_defs asc_def)

lemma structured_stock_result:
  "call_result sample_runtime shipped user_id structured_stock_call =
     PDict [(asc ''found'', PBool True), (asc ''name'', PStr (asc ''Paracetamol'')),
            (asc ''stock'', PInt 42)]"
  unfolding call_result_def dispatched_args_def structured_stock_args
  by (simp add: structured_stock_call_def tool_call_def dict_get_def dispatch_def run_tool_def
      bind_kwargs_def tool_defs data_defs str_defs)

lemma second_prescription_result:
  "call_result sample_runtime shipped (asc ''u001'') second_prescription_call =
   PDict [(asc ''ok'', PBool True), (asc ''name'', PStr (asc ''Amoxicillin'')),
          (asc ''requires_prescription'', PBool True),
          (asc ''user_has_prescription'', PBool True)]"
  unfolding call_result_def dispatched_args_def second_prescription_args
  by (simp add: second_prescription_call_def tool_call_fields prescription_dispatch)

lemma complete_prescription_result:
  "call_result sample_runtime shipped user_id complete_prescription_call =
   PDict [(asc ''ok'', PBool True), (asc ''name'', PStr (asc ''Amoxicillin'')),
          (asc ''requires_prescription'', PBool True),
          (asc ''user_has_prescription'', PBool True)]"
  unfolding call_result_def dispatched_args_def complete_prescription_args
  by (simp add: complete_prescription_call_def tool_call_fields prescription_dispatch)

lemma error_code_stock:
  "error_code (PDict [(asc ''found'', PBool True), (asc ''name'', PStr (asc ''Paracetamol'')),
            (asc ''stock'', PInt 42)]) = PNone"
  by (simp add: error_code_def asc_def)


text \<open>
  Claim C3 says that the final input holds the decision output verbatim and each call
  id exactly once among the output items, for every decision response. Two things stand
  against it. The loop makes one output item for each call and copies the call's id into
  it, so an id that two calls share occurs twice. And a structured argument payload is
  the object that the response item holds: \<open>_normalize_args\<close> returns it as it is,
  line 219 writes \<open>user_id\<close> into it, and the item that reaches the final input shows
  the entry. The run below has both: two \<open>check_prescription\<close> calls under the call
  id \<open>call_1\<close>, their arguments given as mappings without \<open>user_id\<close>. The input
  of its streaming call holds the two items with \<open>user_id\<close> added, which differ from
  the items of the response, and two output items that both carry \<open>call_1\<close>.
\<close>

theorem structured_arguments_not_verbatim:
  "r_output (responses_create structured_arguments_turn
       (base_input sample_runtime (asc ''u001'') u001_found
          (asc ''Do I have a prescription for Amoxicillin?''))) =
     Some [function_call (asc ''check_prescription'')
             (PDict [(asc ''name'', PStr (asc ''Amoxicillin''))]) (asc ''call_1''),
           function_call (asc ''check_prescription'')
             (PDict [(asc ''name'', PStr (asc ''Amoxicillin''))]) (asc ''call_1'')]
   \<and> effects (stream_agent_reply sample_runtime structured_arguments_turn shipped (asc ''u001'')
                 (asc ''Do I have a prescription for Amoxicillin?'')) ! 3 =
       StreamCall
         (base_input sample_runtime (asc ''u001'') u001_found
            (asc ''Do I have a prescription for Amoxicillin?'')
          @ [PDict (function_call (asc ''check_prescription'')
                      (PDict [(asc ''name'', PStr (asc ''Amoxicillin'')),
                              (asc ''user_id'', PStr (asc ''u001''))]) (asc ''call_1'')),
             PDict (function_call (asc ''check_prescription'')
                      (PDict [(asc ''name'', PStr (asc ''Amoxicillin'')),
                              (asc ''user_id'', PStr (asc ''u001''))]) (asc ''call_1''))]
          @ [call_output sample_runtime shipped (asc ''u001'') structured_prescription_call,
             call_output sample_runtime shipped (asc ''u001'') structured_prescription_call])
         (Some (asc ''none''))
   \<and> function_call (asc ''check_prescription'')
         (PDict [(asc ''name'', PStr (asc ''Amoxicillin'')),
                 (asc ''user_id'', PStr (asc ''u001''))]) (asc ''call_1'')
       \<noteq> function_call (asc ''check_prescription'')
           (PDict [(asc ''name'', PStr (asc ''Amoxicillin''))]) (asc ''call_1'')
   \<and> field (call_output sample_runtime shipped (asc ''u001'') structured_prescription_call)
         (asc ''call_id'') = Some (PStr (asc ''call_1''))"
proof -
  let ?R = sample_runtime and ?u = "asc ''u001''"
  let ?msg = "asc ''Do I have a prescription for Amoxicillin?''"
  let ?c = structured_prescription_call
  have p: "list_all (prepared ?R ?u) [?c, ?c]"
    by (simp add: prepared_def structured_prescription_args)
  have d: "call_dispatch ?R ?u ?c =
      ToolDispatch (PStr (asc ''check_prescription''))
           (PDict [(asc ''name'', PStr (asc ''Amoxicillin'')),
                   (asc ''user_id'', PStr (asc ''u001''))])"
    unfolding call_dispatch_def dispatched_args_def structured_prescription_args
    by (simp add: structured_prescription_call_def tool_call_fields)
  have l: "tool_loop ?R shipped ?u [?c, ?c] =
       ([call_dispatch ?R ?u ?c, call_dispatch ?R ?u ?c],
        Inr [call_output ?R shipped ?u ?c, call_output ?R shipped ?u ?c])"
    using tool_loop_prepared [OF p, of shipped] by simp
  have codec: "list_all (\<lambda>c. json_loads ?R (json_dumps ?R (call_result ?R shipped ?u c))
                              = Some (call_result ?R shipped ?u c)) [?c, ?c]"
  proof -
    have "json_loads ?R (json_dumps ?R (call_result ?R shipped ?u ?c))
            = Some (call_result ?R shipped ?u ?c)"
      unfolding structured_prescription_result by (rule sample_codec_prescription)
    then show ?thesis by simp
  qed
  have e: "error_code (call_result ?R shipped ?u ?c) = PNone"
    unfolding structured_prescription_result by (rule error_code_prescription)
  have s: "scan_not_found ?R [call_output ?R shipped ?u ?c, call_output ?R shipped ?u ?c]
             = Inr False"
    using scan_outputs [OF codec] e by simp
  have cid: "field (call_output ?R shipped ?u ?c) (asc ''call_id'') = Some (PStr (asc ''call_1''))"
    by (simp add: call_output_call_id structured_prescription_call_def tool_call_fields)
  have ne: "function_call (asc ''check_prescription'')
         (PDict [(asc ''name'', PStr (asc ''Amoxicillin'')),
                 (asc ''user_id'', PStr (asc ''u001''))]) (asc ''call_1'')
       \<noteq> function_call (asc ''check_prescription'')
           (PDict [(asc ''name'', PStr (asc ''Amoxicillin''))]) (asc ''call_1'')"
    by (simp add: function_call_def)
  have run: "effects (stream_agent_reply ?R structured_arguments_turn shipped ?u ?msg) ! 3 =
       StreamCall
         (base_input ?R ?u u001_found ?msg
          @ [PDict (function_call (asc ''check_prescription'')
                      (PDict [(asc ''name'', PStr (asc ''Amoxicillin'')),
                              (asc ''user_id'', PStr (asc ''u001''))]) (asc ''call_1'')),
             PDict (function_call (asc ''check_prescription'')
                      (PDict [(asc ''name'', PStr (asc ''Amoxicillin'')),
                              (asc ''user_id'', PStr (asc ''u001''))]) (asc ''call_1''))]
          @ [call_output ?R shipped ?u ?c, call_output ?R shipped ?u ?c])
         (Some (asc ''none''))"
    unfolding gate_passed [OF u001_gate] Let_def structured_turn_calls l
    by (simp add: s structured_turn_output final_answer_def structured_item_after_tools d Let_def
        del: tool_loop.simps scan_not_found.simps)
  show ?thesis
    using run ne cid by (simp add: structured_turn_output)
qed

text \<open>
  Claim C3 as amended. Take a request that passed the user gate, whose calls (at least one)
  were all dispatched and met no short-circuit, and a decision response that has no
  function-call item for \<open>check_prescription\<close> carrying its arguments as a structured
  mapping without the key \<open>user_id\<close>; any other item is admitted, whatever its type
  and its arguments. Then the run ends with the streaming call whose input is the base
  input, followed by the output sequence of the decision response as it was returned,
  followed by the collected output items. There are as many output items as extracted
  calls; the call ids of the output items are, in order, the call ids of the calls,
  which are those of the function-call items of the response; and when these ids are
  distinct each occurs exactly once among the output items.
\<close>

theorem final_input_reassembly:
  assumes gate: "get_user R db (PStr user_id) = Inr user_res"
                "field user_res (asc ''found'') = Some (PBool True)"
      and resp_output: "r_output (responses_create B (base_input R user_id user_res user_message))
                     = Some output"
      and calls: "extract_function_calls
                    (responses_create B (base_input R user_id user_res user_message)) = calls"
                 "calls \<noteq> []"
      and completed: "tool_loop R db user_id calls = (dispatched, Inr tool_outputs)"
      and no_short_circuit: "scan_not_found R tool_outputs = Inr False"
      and admitted: "list_all (\<lambda>item. \<not> receives_user_id item) output"
  shows "stream_agent_reply R B db user_id user_message =
           \<lparr>effects =
              DecisionCall (base_input R user_id user_res user_message) # dispatched
              @ StreamCall (base_input R user_id user_res user_message @ map PDict output
                              @ tool_outputs) (Some (asc ''none''))
              # relay (responses_stream B
                         (base_input R user_id user_res user_message @ map PDict output
                            @ tool_outputs) (Some (asc ''none''))),
            ending = Returned\<rparr>
         \<and> length tool_outputs = length calls
         \<and> map (\<lambda>out. field out (asc ''call_id'')) tool_outputs
             = map (\<lambda>call. Some (dict_get call (asc ''call_id''))) calls
         \<and> map (\<lambda>call. dict_get call (asc ''call_id'')) calls
             = map (\<lambda>item. dict_get item (asc ''call_id''))
                 (filter (\<lambda>item. dict_get item (asc ''type'') = PStr (asc ''function_call''))
                    output)
         \<and> (distinct (map (\<lambda>call. dict_get call (asc ''call_id'')) calls) \<longrightarrow>
              (\<forall>call\<in>set calls.
                 length (filter (\<lambda>out. field out (asc ''call_id'')
                                        = Some (dict_get call (asc ''call_id''))) tool_outputs)
                   = 1))"
proof -
  let ?base = "base_input R user_id user_res user_message"
  let ?cid = "\<lambda>call. dict_get call (asc ''call_id'')"
  have p: "list_all (prepared R user_id) calls"
    using completed by (rule tool_loop_completed)
  have outs: "tool_outputs = map (call_output R db user_id) calls"
    using tool_loop_prepared [OF p, of db] completed by simp
  from calls(2) resp_output obtain item items where o: "output = item # items"
    using extract_nonempty_output [of "responses_create B ?base"] calls(1) by auto
  have run: "stream_agent_reply R B db user_id user_message =
           \<lparr>effects = DecisionCall ?base # dispatched
              @ StreamCall (?base @ map PDict output @ tool_outputs) (Some (asc ''none''))
              # relay (responses_stream B (?base @ map PDict output @ tool_outputs)
                         (Some (asc ''none''))),
            ending = Returned\<rparr>"
    unfolding gate_passed [OF gate]
    using calls completed no_short_circuit resp_output
      admitted_items_untouched [OF admitted, of user_id]
    by (simp add: Let_def final_answer_def o)
  have ids: "map (\<lambda>out. field out (asc ''call_id'')) tool_outputs = map (\<lambda>call. Some (?cid call)) calls"
    unfolding outs by (simp add: call_output_call_id)
  have src: "map ?cid calls
             = map (\<lambda>item. dict_get item (asc ''call_id''))
                 (filter (\<lambda>item. dict_get item (asc ''type'') = PStr (asc ''function_call''))
                    output)"
    using calls(1) resp_output o extract_loop_call_ids [of "output"]
    by (simp add: extract_function_calls_def)
  have once: "length (filter (\<lambda>out. field out (asc ''call_id'') = Some (?cid call)) tool_outputs) = 1"
    if d: "distinct (map ?cid calls)" and c: "call \<in> set calls" for call
  proof -
    have "filter (\<lambda>out. field out (asc ''call_id'') = Some (?cid call)) tool_outputs
            = map (call_output R db user_id) (filter (\<lambda>y. ?cid y = ?cid call) calls)"
      unfolding outs by (simp add: filter_map comp_def call_output_call_id)
    then show ?thesis using filter_distinct_key [OF d c] by simp
  qed
  show ?thesis
    using run ids src once outs by simp
qed

theorem final_input_reassembly_witness:
  "get_user sample_runtime shipped (PStr (asc ''u001'')) = Inr u001_found
   \<and> field u001_found (asc ''found'') = Some (PBool True)
   \<and> r_output (responses_create mixed_arguments_turn
         (base_input sample_runtime (asc ''u001'') u001_found
            (asc ''Is Paracetamol in stock, and may I have Amoxicillin?''))) =
       Some mixed_arguments_output
   \<and> extract_function_calls (responses_create mixed_arguments_turn
         (base_input sample_runtime (asc ''u001'') u001_found
            (asc ''Is Paracetamol in stock, and may I have Amoxicillin?''))) =
       [structured_stock_call, second_prescription_call, complete_prescription_call]
   \<and> tool_loop sample_runtime shipped (asc ''u001'')
         [structured_stock_call, second_prescription_call, complete_prescription_call] =
       ([ToolDispatch (PStr (asc ''check_stock''))
           (PDict [(asc ''name'', PStr (asc ''Paracetamol''))]),
         ToolDispatch (PStr (asc ''check_prescription''))
           (PDict [(asc ''name'', PStr (asc ''Amoxicillin'')),
                   (asc ''user_id'', PStr (asc ''u001''))]),
         ToolDispatch (PStr (asc ''check_prescription''))
           (PDict [(asc ''name'', PStr (asc ''Amoxicillin'')),
                   (asc ''user_id'', PStr (asc ''u001''))])],
        Inr [call_output sample_runtime shipped (asc ''u001'') structured_stock_call,
             call_output sample_runtime shipped (asc ''u001'') second_prescription_call,
             call_output sample_runtime shipped (asc ''u001'') complete_prescription_call])
   \<and> scan_not_found sample_runtime
         [call_output sample_runtime shipped (asc ''u001'') structured_stock_call,
          call_output sample_runtime shipped (asc ''u001'') second_prescription_call,
          call_output sample_runtime shipped (asc ''u001'') complete_prescription_call]
       = Inr False
   \<and> list_all (\<lambda>item. \<not> receives_user_id item) mixed_arguments_output
   \<and> map (\<lambda>item. is_mapping (dict_get item (asc ''arguments''))) mixed_arguments_output
       = [False, True, False, True]
   \<and> stream_agent_reply sample_runtime mixed_arguments_turn shipped (asc ''u001'')
         (asc ''Is Paracetamol in stock, and may I have Amoxicillin?'') =
       \<lparr>effects =
          [DecisionCall (base_input sample_runtime (asc ''u001'') u001_found
                           (asc ''Is Paracetamol in stock, and may I have Amoxicillin?'')),
           ToolDispatch (PStr (asc ''check_stock''))
             (PDict [(asc ''name'', PStr (asc ''Paracetamol''))]),
           ToolDispatch (PStr (asc ''check_prescription''))
             (PDict [(asc ''name'', PStr (asc ''Amoxicillin'')),
                     (asc ''user_id'', PStr (asc ''u001''))]),
           ToolDispatch (PStr (asc ''check_prescription''))
             (PDict [(asc ''name'', PStr (asc ''Amoxicillin'')),
                     (asc ''user_id'', PStr (asc ''u001''))]),
           StreamCall
             (base_input sample_runtime (asc ''u001'') u001_found
                (asc ''Is Paracetamol in stock, and may I have Amoxicillin?'')
              @ map PDict mixed_arguments_output
              @ [call_output sample_runtime shipped (asc ''u001'') structured_stock_call,
                 call_output sample_runtime shipped (asc ''u001'') second_prescription_call,
                 call_output sample_runtime shipped (asc ''u001'') complete_prescription_call])
             (Some (asc ''none'')),
           Yield (asc ''Yes.'')],
        ending = Returned\<rparr>
   \<and> map (\<lambda>out. field out (asc ''call_id''))
         [call_output sample_runtime shipped (asc ''u001'') structured_stock_call,
          call_output sample_runtime shipped (asc ''u001'') second_prescription_call,
          call_output sample_runtime shipped (asc ''u001'') complete_prescription_call]
       = [Some (PStr (asc ''call_1'')), Some (PStr (asc ''call_2'')), Some (PStr (asc ''call_3''))]
   \<and> map (\<lambda>item. dict_get item (asc ''call_id''))
         (filter (\<lambda>item. dict_get item (asc ''type'') = PStr (asc ''function_call''))
            mixed_arguments_output)
       = [PStr (asc ''call_1''), PStr (asc ''call_2''), PStr (asc ''call_3'')]
   \<and> distinct (map (\<lambda>call. dict_get call (asc ''call_id''))
                  [structured_stock_call, second_prescription_call, complete_prescription_call])
   \<and> map (\<lambda>call. length (filter (\<lambda>out. field out (asc ''call_id'')
                                         = Some (dict_get call (asc ''call_id'')))
            [call_output sample_runtime shipped (asc ''u001'') structured_stock_call,
             call_output sample_runtime shipped (asc ''u001'') second_prescription_call,
             call_output sample_runtime shipped (asc ''u001'') complete_prescription_call]))
         [structured_stock_call, second_prescription_call, complete_prescription_call]
       = [1, 1, 1]"
proof -
  let ?R = sample_runtime and ?u = "asc ''u001''"
  let ?msg = "asc ''Is Paracetamol in stock, and may I have Amoxicillin?''"
  let ?c1 = structured_stock_call and ?c2 = second_prescription_call
  let ?c3 = complete_prescription_call
  let ?cid = "\<lambda>call. dict_get call (asc ''call_id'')"
  let ?outs = "[call_output ?R shipped ?u ?c1, call_output ?R shipped ?u ?c2,
                call_output ?R shipped ?u ?c3]"
  have p: "list_all (prepared ?R ?u) [?c1, ?c2, ?c3]"
    by (simp add: prepared_def structured_stock_args second_prescription_args
        complete_prescription_args)
  have d1: "call_dispatch ?R ?u ?c1 =
      ToolDispatch (PStr (asc ''check_stock'')) (PDict [(asc ''name'', PStr (asc ''Paracetamol''))])"
    unfolding call_dispatch_def dispatched_args_def structured_stock_args
    by (simp add: structured_stock_call_def tool_call_fields)
  have d2: "call_dispatch ?R ?u ?c2 =
      ToolDispatch (PStr (asc ''check_prescription''))
           (PDict [(asc ''name'', PStr (asc ''Amoxicillin'')),
                   (asc ''user_id'', PStr (asc ''u001''))])"
    unfolding call_dispatch_def dispatched_args_def second_prescription_args
    by (simp add: second_prescription_call_def tool_call_fields)
  have d3: "call_dispatch ?R ?u ?c3 =
      ToolDispatch (PStr (asc ''check_prescription''))
           (PDict [(asc ''name'', PStr (asc ''Amoxicillin'')),
                   (asc ''user_id'', PStr (asc ''u001''))])"
    unfolding call_dispatch_def dispatched_args_def complete_prescription_args
    by (simp add: complete_prescription_call_def tool_call_fields)
  have l: "tool_loop ?R shipped ?u [?c1, ?c2, ?c3] =
       ([ToolDispatch (PStr (asc ''check_stock''))
           (PDict [(asc ''name'', PStr (asc ''Paracetamol''))]),
         ToolDispatch (PStr (asc ''check_prescription''))
           (PDict [(asc ''name'', PStr (asc ''Amoxicillin'')),
                   (asc ''user_id'', PStr (asc ''u001''))]),
         ToolDispatch (PStr (asc ''check_prescription''))
           (PDict [(asc ''name'', PStr (asc ''Amoxicillin'')),
                   (asc ''user_id'', PStr (asc ''u001''))])],
        Inr ?outs)"
    using tool_loop_prepared [OF p, of shipped] by (simp add: d1 d2 d3)
  have codec: "list_all (\<lambda>c. json_loads ?R (json_dumps ?R (call_result ?R shipped ?u c))
                              = Some (call_result ?R shipped ?u c)) [?c1, ?c2, ?c3]"
  proof -
    have "json_loads ?R (json_dumps ?R (call_result ?R shipped ?u ?c1))
            = Some (call_result ?R shipped ?u ?c1)"
      unfolding structured_stock_result by (rule sample_codec_stock)
    moreover have "json_loads ?R (json_dumps ?R (call_result ?R shipped ?u ?c2))
            = Some (call_result ?R shipped ?u ?c2)"
      unfolding second_prescription_result by (rule sample_codec_prescription)
    moreover have "json_loads ?R (json_dumps ?R (call_result ?R shipped ?u ?c3))
            = Some (call_result ?R shipped ?u ?c3)"
      unfolding complete_prescription_result by (rule sample_codec_prescription)
    ultimately show ?thesis by simp
  qed
  have e1: "error_code (call_result ?R shipped ?u ?c1) = PNone"
    unfolding structured_stock_result by (rule error_code_stock)
  have e2: "error_code (call_result ?R shipped ?u ?c2) = PNone"
    unfolding second_prescription_result by (rule error_code_prescription)
  have e3: "error_code (call_result ?R shipped ?u ?c3) = PNone"
    unfolding complete_prescription_result by (rule error_code_prescription)
  have s: "scan_not_found ?R ?outs = Inr False"
    using scan_outputs [OF codec] e1 e2 e3 by simp
  have n: "[?c1, ?c2, ?c3] \<noteq> []" by simp
  have ev: "relay (responses_stream mixed_arguments_turn input choice) = [Yield (asc ''Yes.'')]"
    for input choice
    by (simp add: mixed_arguments_turn_def relay_sample_events)
  have cids: "?cid ?c1 = PStr (asc ''call_1'')" "?cid ?c2 = PStr (asc ''call_2'')"
             "?cid ?c3 = PStr (asc ''call_3'')"
    by (simp_all add: structured_stock_call_def second_prescription_call_def
        complete_prescription_call_def tool_call_fields)
  have neq: "asc ''call_1'' \<noteq> asc ''call_2''" "asc ''call_1'' \<noteq> asc ''call_3''"
            "asc ''call_2'' \<noteq> asc ''call_3''"
    by (simp_all add: asc_def)
  have dist: "distinct (map ?cid [?c1, ?c2, ?c3])"
    using neq by (simp add: cids)
  note t = final_input_reassembly [where user_message = ?msg, OF u001_gate
        mixed_turn_output mixed_turn_calls n l s mixed_output_admitted]
  have run: "stream_agent_reply ?R mixed_arguments_turn shipped ?u ?msg =
       \<lparr>effects =
          [DecisionCall (base_input ?R ?u u001_found ?msg),
           ToolDispatch (PStr (asc ''check_stock''))
             (PDict [(asc ''name'', PStr (asc ''Paracetamol''))]),
           ToolDispatch (PStr (asc ''check_prescription''))
             (PDict [(asc ''name'', PStr (asc ''Amoxicillin'')),
                     (asc ''user_id'', PStr (asc ''u001''))]),
           ToolDispatch (PStr (asc ''check_prescription''))
             (PDict [(asc ''name'', PStr (asc ''Amoxicillin'')),
                     (asc ''user_id'', PStr (asc ''u001''))]),
           StreamCall (base_input ?R ?u u001_found ?msg @ map PDict mixed_arguments_output @ ?outs)
             (Some (asc ''none'')),
           Yield (asc ''Yes.'')],
        ending = Returned\<rparr>"
    using t by (simp add: ev)
  have ids: "map (\<lambda>out. field out (asc ''call_id'')) ?outs
       = [Some (PStr (asc ''call_1'')), Some (PStr (asc ''call_2'')), Some (PStr (asc ''call_3''))]"
    using t by (simp add: cids)
  have src: "map (\<lambda>item. dict_get item (asc ''call_id''))
         (filter (\<lambda>item. dict_get item (asc ''type'') = PStr (asc ''function_call''))
            mixed_arguments_output)
       = [PStr (asc ''call_1''), PStr (asc ''call_2''), PStr (asc ''call_3'')]"
    using t by (simp add: cids)
  have once: "map (\<lambda>call. length (filter (\<lambda>out. field out (asc ''call_id'') = Some (?cid call))
                                      ?outs)) [?c1, ?c2, ?c3] = [1, 1, 1]"
  proof -
    from t dist have "\<forall>call\<in>set [?c1, ?c2, ?c3].
        length (filter (\<lambda>out. field out (asc ''call_id'') = Some (?cid call)) ?outs) = 1"
      by blast
    then show ?thesis by simp
  qed
  show ?thesis
    using u001_gate mixed_turn_output [of "base_input ?R ?u u001_found ?msg"]
      mixed_turn_calls [of "base_input ?R ?u u001_found ?msg"] l s mixed_output_admitted
      mixed_output_structured run ids src dist once
    by (simp only: simp_thms)
qed
subsection \<open>Dispatch of one call and isolation of its faults\<close>

text \<open>
  Claim C4. For every tool name and every argument value, the dispatch of a call
  (\<open>_run_tool\<close> inside the \<open>try\<close> block of the loop) gives one result envelope and
  raises nothing: a name that is none of the three tools gives the \<open>UNKNOWN_TOOL\<close>
  envelope; an exception of the operation gives the \<open>TOOL_ERROR\<close> envelope whose
  message is \<open>str(e)\<close>; otherwise the envelope is the one the operation returned.
  And when the normalized arguments of every call are mappings, the loop collects one
  output item for each call, whatever faults the dispatch of the other calls met.
\<close>

theorem dispatch_isolation:
  "is_envelope (dispatch R db name args)
   \<and> (name \<noteq> PStr (asc ''get_medication_by_name'') \<and> name \<noteq> PStr (asc ''check_stock'')
        \<and> name \<noteq> PStr (asc ''check_prescription'') \<longrightarrow>
      dispatch R db name args =
        PDict [(asc ''ok'', PBool False),
               (asc ''error'', error_body (asc ''UNKNOWN_TOOL'')
                  (asc ''Tool '' @ [39] @ py_str R name @ [39] @ asc '' not implemented''))])
   \<and> (\<forall>e. run_tool R db name args = Inl e \<longrightarrow>
          dispatch R db name args =
            PDict [(asc ''ok'', PBool False),
                   (asc ''error'', error_body (asc ''TOOL_ERROR'') (str_exn R e))])
   \<and> (\<forall>result. run_tool R db name args = Inr result \<longrightarrow> dispatch R db name args = result)
   \<and> (list_all (\<lambda>c. is_mapping (normalize_args R (dict_get c (asc ''arguments'')))) calls \<longrightarrow>
        tool_loop R db user_id calls =
          (map (call_dispatch R user_id) calls, Inr (map (call_output R db user_id) calls)))"
proof -
  have "list_all (\<lambda>c. is_mapping (normalize_args R (dict_get c (asc ''arguments'')))) calls \<Longrightarrow>
        list_all (prepared R user_id) calls"
    by (induction calls) (auto intro: mapping_prepared)
  then show ?thesis
    using dispatch_envelope [of R db name args] dispatch_unknown_tool [of name R db args]
      tool_loop_prepared [of R user_id calls db]
    by (auto simp: dispatch_def)
qed

theorem dispatch_isolation_witness:
  "dispatch sample_runtime shipped (PStr (asc ''order_medication'')) (PDict []) =
     PDict [(asc ''ok'', PBool False),
            (asc ''error'', error_body (asc ''UNKNOWN_TOOL'')
               (asc ''Tool '' @ [39] @ asc ''order_medication'' @ [39] @ asc '' not implemented''))]
   \<and> run_tool sample_runtime shipped (PStr (asc ''check_stock''))
         (PDict [(asc ''name'', PInt 5)]) = Inl (AttributeError (PInt 5) (asc ''strip''))
   \<and> dispatch sample_runtime shipped (PStr (asc ''check_stock''))
         (PDict [(asc ''name'', PInt 5)]) =
       PDict [(asc ''ok'', PBool False),
              (asc ''error'', error_body (asc ''TOOL_ERROR'')
                 ([39] @ asc ''int'' @ [39] @ asc '' object has no attribute '' @ [39]
                    @ asc ''strip'' @ [39]))]
   \<and> list_all (\<lambda>c. is_mapping (normalize_args sample_runtime (dict_get c (asc ''arguments''))))
         [faulty_stock_call, paracetamol_stock_call]
   \<and> tool_loop sample_runtime shipped (asc ''u001'') [faulty_stock_call, paracetamol_stock_call] =
       ([ToolDispatch (PStr (asc ''check_stock'')) (PDict [(asc ''name'', PInt 5)]),
         ToolDispatch (PStr (asc ''check_stock''))
           (PDict [(asc ''name'', PStr (asc ''Paracetamol''))])],
        Inr [tool_output sample_runtime (PStr (asc ''call_0''))
               (PDict [(asc ''ok'', PBool False),
                       (asc ''error'', error_body (asc ''TOOL_ERROR'')
                          ([39] @ asc ''int'' @ [39] @ asc '' object has no attribute '' @ [39]
                             @ asc ''strip'' @ [39]))]),
             tool_output sample_runtime (PStr (asc ''call_1''))
               (PDict [(asc ''found'', PBool True), (asc ''name'', PStr (asc ''Paracetamol'')),
                       (asc ''stock'', PInt 42)])])"
proof -
  let ?R = sample_runtime and ?u = "asc ''u001''"
  have n: "PStr (asc ''order_medication'') \<noteq> PStr (asc ''get_medication_by_name'')
           \<and> PStr (asc ''order_medication'') \<noteq> PStr (asc ''check_stock'')
           \<and> PStr (asc ''order_medication'') \<noteq> PStr (asc ''check_prescription'')"
    by (simp add: asc_def)
  have m: "list_all (\<lambda>c. is_mapping (normalize_args ?R (dict_get c (asc ''arguments''))))
             [faulty_stock_call, paracetamol_stock_call]"
    by (simp add: faulty_stock_call_def sample_call_defs tool_call_def dict_get_def
        normalize_args_def is_mapping_def sample_defs asc_def)
  have s: "str_exn ?R (AttributeError (PInt 5) (asc ''strip'')) =
             [39] @ asc ''int'' @ [39] @ asc '' object has no attribute '' @ [39]
               @ asc ''strip'' @ [39]"
    by (simp add: sample_runtime_def)
  have d1: "dispatch ?R shipped (PStr (asc ''check_stock'')) (PDict [(asc ''name'', PInt 5)]) =
       PDict [(asc ''ok'', PBool False),
              (asc ''error'', error_body (asc ''TOOL_ERROR'')
                 ([39] @ asc ''int'' @ [39] @ asc '' object has no attribute '' @ [39]
                    @ asc ''strip'' @ [39]))]"
    using dispatch_isolation [of ?R shipped "PStr (asc ''check_stock'')"
        "PDict [(asc ''name'', PInt 5)]" "[]" ?u] faulty_stock_run
    unfolding s [symmetric] by blast
  have o1: "call_output ?R shipped ?u faulty_stock_call =
      tool_output ?R (PStr (asc ''call_0''))
        (PDict [(asc ''ok'', PBool False),
                (asc ''error'', error_body (asc ''TOOL_ERROR'')
                   ([39] @ asc ''int'' @ [39] @ asc '' object has no attribute '' @ [39]
                      @ asc ''strip'' @ [39]))])"
    unfolding call_output_def call_result_def dispatched_args_def faulty_stock_args
    by (simp add: faulty_stock_call_def tool_call_fields d1)
  have o2: "call_output ?R shipped ?u paracetamol_stock_call =
      tool_output ?R (PStr (asc ''call_1''))
        (PDict [(asc ''found'', PBool True), (asc ''name'', PStr (asc ''Paracetamol'')),
                (asc ''stock'', PInt 42)])"
    unfolding call_output_def paracetamol_stock_result
    by (simp add: paracetamol_stock_call_def tool_call_fields)
  have c1: "call_dispatch ?R ?u faulty_stock_call =
      ToolDispatch (PStr (asc ''check_stock'')) (PDict [(asc ''name'', PInt 5)])"
    unfolding call_dispatch_def dispatched_args_def faulty_stock_args
    by (simp add: faulty_stock_call_def tool_call_fields)
  have c2: "call_dispatch ?R ?u paracetamol_stock_call =
      ToolDispatch (PStr (asc ''check_stock'')) (PDict [(asc ''name'', PStr (asc ''Paracetamol''))])"
    unfolding call_dispatch_def dispatched_args_def paracetamol_stock_args
    by (simp add: paracetamol_stock_call_def tool_call_fields)
  have u: "dispatch ?R shipped (PStr (asc ''order_medication'')) (PDict []) =
     PDict [(asc ''ok'', PBool False),
            (asc ''error'', error_body (asc ''UNKNOWN_TOOL'')
               (asc ''Tool '' @ [39] @ asc ''order_medication'' @ [39] @ asc '' not implemented''))]"
    using dispatch_isolation [of ?R shipped "PStr (asc ''order_medication'')" "PDict []" "[]" ?u] n
    by (simp add: py_str_def)
  have l: "tool_loop ?R shipped ?u [faulty_stock_call, paracetamol_stock_call] =
       (map (call_dispatch ?R ?u) [faulty_stock_call, paracetamol_stock_call],
        Inr (map (call_output ?R shipped ?u) [faulty_stock_call, paracetamol_stock_call]))"
    using dispatch_isolation [of ?R shipped PNone PNone
        "[faulty_stock_call, paracetamol_stock_call]" ?u] m
    by blast
  show ?thesis
    unfolding l
    using u faulty_stock_run d1 m by (simp add: o1 o2 c1 c2)
qed

subsection \<open>Argument normalization\<close>

text \<open>
  What \<open>_normalize_args\<close> does on each kind of payload: an absent payload gives the
  empty mapping, a mapping is returned as it is, a string is parsed and the empty mapping
  stands in when parsing raises, and any other value gives the empty mapping. The
  function returns a value and never an exception.
\<close>

lemma normalize_args_cases:
  "normalize_args R PNone = PDict []"
  "normalize_args R (PDict d) = PDict d"
  "normalize_args R (PStr s) = (case json_loads R s of Some v \<Rightarrow> v | None \<Rightarrow> PDict [])"
  "normalize_args R (PBool b) = PDict []"
  "normalize_args R (PInt i) = PDict []"
  "normalize_args R (PList xs) = PDict []"
  by (simp_all add: normalize_args_def)

text \<open>
  Claim C5 says that the result is a mapping for every payload. The code returns
  whatever \<open>json.loads\<close> returns for a string, and a string may be the JSON text of an
  array, a number, a string, a boolean or \<open>null\<close>: the result is then that value, not
  a mapping. The instance below is the text \<open>[]\<close>, which gives the empty list.
\<close>

theorem normalize_args_returns_parsed_value:
  assumes "json_loads R s = Some v"
  shows "normalize_args R (PStr s) = v"
  using assms by (simp add: normalize_args_def)

theorem normalize_args_returns_parsed_value_witness:
  "json_loads sample_runtime [91, 93] = Some (PList [])
   \<and> normalize_args sample_runtime (PStr [91, 93]) = PList []
   \<and> \<not> is_mapping (normalize_args sample_runtime (PStr [91, 93]))"
proof -
  have l: "json_loads sample_runtime [91, 93] = Some (PList [])"
    by (simp add: sample_runtime_def sample_json_def quoted_def asc_def)
  show ?thesis
    using normalize_args_returns_parsed_value [OF l] l by (simp add: is_mapping_def)
qed

text \<open>
  What follows from it in a turn: for a \<open>check_prescription\<close> call whose argument
  text is \<open>[]\<close>, the assignment of line 219 meets a list, and the generator ends with
  the \<open>TypeError\<close>, which no \<open>try\<close> block catches.
\<close>

lemma array_arguments_escape:
  "ending (stream_agent_reply sample_runtime array_arguments_turn shipped (asc ''u001'')
             (asc ''Do I have a prescription for Amoxicillin?'')) =
     Raised (TypeError_item_assignment (PList []))"
  by (simp add: stream_agent_reply_def tool_defs data_defs str_defs array_arguments_turn_def
      extract_function_calls_def function_call_def dict_get_def prepare_args_def
      normalize_args_def ensure_user_id_def py_in_def set_item_def sample_runtime_def
      sample_json_def quoted_def Let_def)

subsection \<open>Injection of the user identifier\<close>

text \<open>
  Claim C6. In a request that passed the user gate, take an extracted call named
  \<open>check_prescription\<close> whose normalized arguments are a mapping, the calls before it
  having reached the dispatcher. The dispatcher then receives, for this call, the mapping
  itself when it has a \<open>user_id\<close> key, and otherwise the mapping with one more entry,
  \<open>user_id\<close> bound to the user identifier of the request (the one the user gate looked
  up); every other key keeps its value.
\<close>

theorem user_id_injection:
  assumes gate: "get_user R db (PStr user_id) = Inr user_res"
                "field user_res (asc ''found'') = Some (PBool True)"
      and calls: "extract_function_calls
                    (responses_create B (base_input R user_id user_res user_message))
                  = before @ call # rest"
      and before: "list_all (prepared R user_id) before"
      and name: "dict_get call (asc ''name'') = PStr (asc ''check_prescription'')"
      and args: "normalize_args R (dict_get call (asc ''arguments'')) = PDict d"
  shows "effects (stream_agent_reply R B db user_id user_message) ! Suc (length before) =
           ToolDispatch (PStr (asc ''check_prescription''))
             (PDict (if asc ''user_id'' \<in> set (map fst d) then d
                     else d @ [(asc ''user_id'', PStr user_id)]))
         \<and> (asc ''user_id'' \<notin> set (map fst d) \<longrightarrow>
              dict_get (d @ [(asc ''user_id'', PStr user_id)]) (asc ''user_id'') = PStr user_id
              \<and> (\<forall>k. k \<noteq> asc ''user_id'' \<longrightarrow>
                     map_of (d @ [(asc ''user_id'', PStr user_id)]) k = map_of d k))"
proof -
  let ?calls = "before @ call # rest"
  have p: "prepared R user_id call"
    using prepare_check_prescription [OF name args] by (simp add: prepared_def)
  have tw: "takeWhile (prepared R user_id) ?calls
              = before @ call # takeWhile (prepared R user_id) rest"
    using before p by (simp add: list_all_iff)
  have cd: "call_dispatch R user_id call =
              ToolDispatch (PStr (asc ''check_prescription''))
                (PDict (if asc ''user_id'' \<in> set (map fst d) then d
                        else d @ [(asc ''user_id'', PStr user_id)]))"
    using prepare_check_prescription [OF name args] name
    by (simp add: call_dispatch_def dispatched_args_def)
  from run_effects_prefix [OF gate calls] obtain more where
    e: "effects (stream_agent_reply R B db user_id user_message) =
          DecisionCall (base_input R user_id user_res user_message)
          # fst (tool_loop R db user_id ?calls) @ more" by auto
  have "effects (stream_agent_reply R B db user_id user_message) ! Suc (length before)
          = call_dispatch R user_id call"
    unfolding e tool_loop_effects tw by (simp add: nth_append)
  moreover
  have "asc ''user_id'' \<notin> set (map fst d) \<longrightarrow>
          dict_get (d @ [(asc ''user_id'', PStr user_id)]) (asc ''user_id'') = PStr user_id
          \<and> (\<forall>k. k \<noteq> asc ''user_id'' \<longrightarrow>
                 map_of (d @ [(asc ''user_id'', PStr user_id)]) k = map_of d k)"
    by (simp add: dict_get_def map_of_append_new del: map_of_append)
  ultimately show ?thesis
    unfolding cd by blast
qed

theorem user_id_injection_witness:
  "get_user sample_runtime shipped (PStr (asc ''u001'')) = Inr u001_found
   \<and> field u001_found (asc ''found'') = Some (PBool True)
   \<and> extract_function_calls
         (responses_create prescription_turn
            (base_input sample_runtime (asc ''u001'') u001_found
               (asc ''Do I have a prescription for Amoxicillin?''))) =
       [] @ amoxicillin_prescription_call # []
   \<and> list_all (prepared sample_runtime (asc ''u001'')) []
   \<and> dict_get amoxicillin_prescription_call (asc ''name'') = PStr (asc ''check_prescription'')
   \<and> normalize_args sample_runtime (dict_get amoxicillin_prescription_call (asc ''arguments'')) =
       PDict [(asc ''name'', PStr (asc ''Amoxicillin''))]
   \<and> effects (stream_agent_reply sample_runtime prescription_turn shipped (asc ''u001'')
                 (asc ''Do I have a prescription for Amoxicillin?'')) ! 1 =
       ToolDispatch (PStr (asc ''check_prescription''))
         (PDict [(asc ''name'', PStr (asc ''Amoxicillin'')),
                 (asc ''user_id'', PStr (asc ''u001''))])"
proof -
  have c: "extract_function_calls
         (responses_create prescription_turn
            (base_input sample_runtime (asc ''u001'') u001_found
               (asc ''Do I have a prescription for Amoxicillin?''))) =
       [] @ amoxicillin_prescription_call # []"
    by (simp add: prescription_calls)
  have b: "list_all (prepared sample_runtime (asc ''u001'')) []" by simp
  have k: "asc ''user_id'' \<notin> set (map fst [(asc ''name'', PStr (asc ''Amoxicillin''))])"
    by (simp add: asc_def)
  show ?thesis
    using user_id_injection [where user_message = "asc ''Do I have a prescription for Amoxicillin?''",
        OF u001_gate c b amoxicillin_prescription_name amoxicillin_prescription_normalized]
      u001_gate c amoxicillin_prescription_name amoxicillin_prescription_normalized k
    by simp
qed

subsection \<open>The prescription check on the shipped dataset\<close>

lemma check_prescription_u001_Amoxicillin:
  "check_prescription R shipped (PStr (asc ''u001'')) (PStr (asc ''Amoxicillin'')) =
     Inr (PDict [(asc ''ok'', PBool True), (asc ''name'', PStr (asc ''Amoxicillin'')),
                 (asc ''requires_prescription'', PBool True),
                 (asc ''user_has_prescription'', PBool True)])"
  by (simp add: tool_defs data_defs str_defs)

lemma check_prescription_u002_Amoxicillin:
  "check_prescription R shipped (PStr (asc ''u002'')) (PStr (asc ''Amoxicillin'')) =
     Inr (PDict [(asc ''ok'', PBool True), (asc ''name'', PStr (asc ''Amoxicillin'')),
                 (asc ''requires_prescription'', PBool True),
                 (asc ''user_has_prescription'', PBool False)])"
  by (simp add: tool_defs data_defs str_defs)

lemma check_prescription_u002_Paracetamol:
  "check_prescription R shipped (PStr (asc ''u002'')) (PStr (asc ''Paracetamol'')) =
     Inr (PDict [(asc ''ok'', PBool True), (asc ''name'', PStr (asc ''Paracetamol'')),
                 (asc ''requires_prescription'', PBool False),
                 (asc ''user_has_prescription'', PBool False)])"
  by (simp add: tool_defs data_defs str_defs)

lemma check_prescription_u001_DoesNotExist:
  "check_prescription R shipped (PStr (asc ''u001'')) (PStr (asc ''DoesNotExist'')) =
     Inr (PDict [(asc ''ok'', PBool False),
                 (asc ''error'', error_body (asc ''NOT_FOUND'')
                    (asc ''Medication '' @ [39] @ asc ''DoesNotExist'' @ [39] @ asc '' not found''))])"
  by (simp add: tool_defs data_defs str_defs med_not_found_message_def py_str_def)

lemma check_prescription_u999_Paracetamol:
  "check_prescription R shipped (PStr (asc ''u999'')) (PStr (asc ''Paracetamol'')) =
     Inr (PDict [(asc ''ok'', PBool False),
                 (asc ''error'', error_body (asc ''UNKNOWN_USER'')
                    (asc ''User '' @ [39] @ asc ''u999'' @ [39] @ asc '' not found''))])"
  by (simp add: tool_defs data_defs str_defs user_not_found_message_def py_str_def)

text \<open>
  Whatever the store and the arguments, \<open>check_prescription\<close> raises, or returns an
  error envelope, or returns a success envelope of exactly four entries, the last two
  being the two booleans.
\<close>

lemma check_prescription_shape:
  "(\<exists>e. check_prescription R db user_id name = Inl e)
   \<or> (\<exists>code message. check_prescription R db user_id name =
         Inr (PDict [(asc ''ok'', PBool False), (asc ''error'', error_body code message)]))
   \<or> (\<exists>canonical requires user_has. check_prescription R db user_id name =
         Inr (PDict [(asc ''ok'', PBool True), (asc ''name'', PStr canonical),
                     (asc ''requires_prescription'', PBool requires),
                     (asc ''user_has_prescription'', PBool user_has)]))"
  by (cases "find_user_by_id db user_id"; cases "find_med_by_name db name")
     (auto simp: check_prescription_def Let_def split: option.split)

text \<open>
  Claim C7. Over the shipped dataset \<open>check_prescription\<close> returns the five results
  that the specification lists: for u001 and Amoxicillin a success envelope with both
  booleans true; for u002 and Amoxicillin the prescription is required and the user has
  none; for u002 and Paracetamol both booleans are false; for u001 and DoesNotExist the
  error code is \<open>NOT_FOUND\<close>; for u999 and Paracetamol it is \<open>UNKNOWN_USER\<close>. And
  every success envelope, on any store, carries both booleans.
\<close>

theorem check_prescription_shipped:
  "check_prescription R shipped (PStr (asc ''u001'')) (PStr (asc ''Amoxicillin'')) =
     Inr (PDict [(asc ''ok'', PBool True), (asc ''name'', PStr (asc ''Amoxicillin'')),
                 (asc ''requires_prescription'', PBool True),
                 (asc ''user_has_prescription'', PBool True)])
   \<and> check_prescription R shipped (PStr (asc ''u002'')) (PStr (asc ''Amoxicillin'')) =
     Inr (PDict [(asc ''ok'', PBool True), (asc ''name'', PStr (asc ''Amoxicillin'')),
                 (asc ''requires_prescription'', PBool True),
                 (asc ''user_has_prescription'', PBool False)])
   \<and> check_prescription R shipped (PStr (asc ''u002'')) (PStr (asc ''Paracetamol'')) =
     Inr (PDict [(asc ''ok'', PBool True), (asc ''name'', PStr (asc ''Paracetamol'')),
                 (asc ''requires_prescription'', PBool False),
                 (asc ''user_has_prescription'', PBool False)])
   \<and> error_code (case check_prescription R shipped (PStr (asc ''u001''))
                        (PStr (asc ''DoesNotExist'')) of Inr result \<Rightarrow> result | Inl e \<Rightarrow> PNone)
       = PStr (asc ''NOT_FOUND'')
   \<and> error_code (case check_prescription R shipped (PStr (asc ''u999''))
                        (PStr (asc ''Paracetamol'')) of Inr result \<Rightarrow> result | Inl e \<Rightarrow> PNone)
       = PStr (asc ''UNKNOWN_USER'')
   \<and> ((\<exists>e. check_prescription R db user_id name = Inl e)
      \<or> (\<exists>code message. check_prescription R db user_id name =
            Inr (PDict [(asc ''ok'', PBool False), (asc ''error'', error_body code message)]))
      \<or> (\<exists>canonical requires user_has. check_prescription R db user_id name =
            Inr (PDict [(asc ''ok'', PBool True), (asc ''name'', PStr canonical),
                        (asc ''requires_prescription'', PBool requires),
                        (asc ''user_has_prescription'', PBool user_has)])))"
proof -
  have nf: "error_code (PDict [(asc ''ok'', PBool False),
                               (asc ''error'', error_body code message)]) = PStr code"
    for code message
    by (simp add: error_code_def error_body_def dict_get_def asc_def)
  show ?thesis
    using check_prescription_shape [of R db user_id name]
    by (simp add: check_prescription_u001_Amoxicillin check_prescription_u002_Amoxicillin
        check_prescription_u002_Paracetamol check_prescription_u001_DoesNotExist
        check_prescription_u999_Paracetamol nf)
qed

subsection \<open>Matching of names and identifiers\<close>

text \<open>
  \<open>strip\<close> removes the white space around a string that neither starts nor ends with
  white space, and two strings that differ in the case of ASCII letters only have the same
  lower-cased form.
\<close>

lemma dropWhile_spaces:
  "list_all isspace ws \<Longrightarrow> v \<noteq> [] \<Longrightarrow> \<not> isspace (hd v) \<Longrightarrow> dropWhile isspace (ws @ v @ rest) = v @ rest"
  by (induction ws) (auto simp: neq_Nil_conv)

lemma strip_surrounded:
  assumes "list_all isspace before" and "list_all isspace after"
      and "v \<noteq> []" and "\<not> isspace (hd v)" and "\<not> isspace (last v)"
  shows "strip (before @ v @ after) = v"
proof -
  have 1: "dropWhile isspace (before @ v @ after) = v @ after"
    using assms by (simp add: dropWhile_spaces)
  have 2: "dropWhile isspace (rev after @ rev v @ []) = rev v @ []"
    using assms by (intro dropWhile_spaces) (simp_all add: list_all_iff hd_rev)
  show ?thesis
    using 1 2 by (simp add: strip_def)
qed

lemma same_letter_lower: "same_letter a b \<Longrightarrow> lower_cp a = lower_cp b"
  unfolding same_letter_def lower_cp_def by (elim disjE conjE) simp_all

lemma letter_not_space: "65 \<le> c \<Longrightarrow> c \<le> 122 \<Longrightarrow> \<not> isspace c"
  unfolding isspace_def by linarith

lemma same_letter_range:
  "same_letter a b \<Longrightarrow> a = b \<or> (65 \<le> a \<and> a \<le> 122 \<and> 65 \<le> b \<and> b \<le> 122)"
  unfolding same_letter_def by linarith

lemma same_letter_space: "same_letter a b \<Longrightarrow> isspace a = isspace b"
  using same_letter_range [of a b] letter_not_space [of a] letter_not_space [of b] by blast

lemma case_variant_lower: "case_variant q s \<Longrightarrow> lower q = lower s"
  unfolding case_variant_def lower_def
  by (induction q s rule: list_all2_induct) (auto dest: same_letter_lower)

lemma case_variant_ends:
  assumes "case_variant q s" and "s \<noteq> []" and "\<not> isspace (hd s)" and "\<not> isspace (last s)"
  shows "q \<noteq> [] \<and> \<not> isspace (hd q) \<and> \<not> isspace (last q)"
proof -
  from assms(1) have l: "length q = length s" and n: "\<And>i. i < length q \<Longrightarrow> same_letter (q ! i) (s ! i)"
    by (auto simp: case_variant_def list_all2_conv_all_nth)
  from l assms(2) have q: "q \<noteq> []" by auto
  have "same_letter (hd q) (hd s)" using n [of 0] q assms(2) by (simp add: hd_conv_nth)
  moreover have "same_letter (last q) (last s)"
    using n [of "length q - 1"] q assms(2) l by (simp add: last_conv_nth)
  ultimately show ?thesis using q assms(3,4) by (auto dest: same_letter_space)
qed

lemma find_med_variant:
  assumes "list_all isspace before" and "list_all isspace after"
      and "case_variant v n" and "n \<noteq> []" and "\<not> isspace (hd n)" and "\<not> isspace (last n)"
  shows "find_med_by_name db (PStr (before @ v @ after)) = Inr (find_med_loop (MEDICATIONS db) (lower n))"
proof -
  from case_variant_ends [OF assms(3-6)] have e: "v \<noteq> []" "\<not> isspace (hd v)" "\<not> isspace (last v)"
    by auto
  show ?thesis
    using strip_surrounded [OF assms(1,2) e] case_variant_lower [OF assms(3)] e(1)
    by (simp add: find_med_by_name_def)
qed

lemma find_user_padded:
  assumes "list_all isspace before" and "list_all isspace after"
      and "n \<noteq> []" and "\<not> isspace (hd n)" and "\<not> isspace (last n)"
  shows "find_user_by_id db (PStr (before @ n @ after)) = Inr (find_user_loop (USERS db) n)"
  using strip_surrounded [OF assms] assms(3) by (simp add: find_user_by_id_def)

lemma case_variant_refl: "case_variant s s"
  by (simp add: case_variant_def same_letter_def list_all2_same)

lemma shipped_medications_keys:
  "list_all (\<lambda>m. m_name m \<noteq> [] \<and> \<not> isspace (hd (m_name m)) \<and> \<not> isspace (last (m_name m))
                  \<and> find_med_loop shipped_MEDICATIONS (lower (m_name m)) = Some m)
     shipped_MEDICATIONS"
  by (simp add: shipped_MEDICATIONS_def str_defs)

lemma shipped_users_keys:
  "list_all (\<lambda>u. u_user_id u \<noteq> [] \<and> \<not> isspace (hd (u_user_id u))
                  \<and> \<not> isspace (last (u_user_id u))
                  \<and> find_user_loop shipped_USERS (u_user_id u) = Some u)
     shipped_USERS"
  by (simp add: shipped_USERS_def str_defs)

lemma shipped_med_variant:
  assumes "list_all isspace before" and "list_all isspace after"
      and "m \<in> set (MEDICATIONS shipped)" and "case_variant v (m_name m)"
  shows "find_med_by_name shipped (PStr (before @ v @ after)) = Inr (Some m)"
proof -
  from assms(3) shipped_medications_keys have
    k: "m_name m \<noteq> []" "\<not> isspace (hd (m_name m))" "\<not> isspace (last (m_name m))"
       "find_med_loop shipped_MEDICATIONS (lower (m_name m)) = Some m"
    by (auto simp: list_all_iff shipped_def)
  show ?thesis
    using find_med_variant [OF assms(1,2,4) k(1,2,3), of shipped] k(4) by (simp add: shipped_def)
qed

lemma shipped_user_padded:
  assumes "list_all isspace before" and "list_all isspace after"
      and "u \<in> set (USERS shipped)"
  shows "find_user_by_id shipped (PStr (before @ u_user_id u @ after)) = Inr (Some u)"
proof -
  from assms(3) shipped_users_keys have
    k: "u_user_id u \<noteq> []" "\<not> isspace (hd (u_user_id u))" "\<not> isspace (last (u_user_id u))"
       "find_user_loop shipped_USERS (u_user_id u) = Some u"
    by (auto simp: list_all_iff shipped_def)
  show ?thesis
    using find_user_padded [OF assms(1,2) k(1,2,3), of shipped] k(4) by (simp add: shipped_def)
qed

text \<open>
  The user lookup compares the stripped query with the stored identifiers as they are:
  what it finds has exactly that identifier, and no two identifiers of the shipped
  dataset differ in the case of letters only.
\<close>

lemma find_user_loop_exact:
  "find_user_loop us uid = Some u \<Longrightarrow> u \<in> set us \<and> u_user_id u = uid"
  by (induction us) (auto split: if_splits)

lemma find_user_loop_absent:
  "list_all (\<lambda>u. u_user_id u \<noteq> uid) us \<Longrightarrow> find_user_loop us uid = None"
  by (induction us) auto

lemma find_user_by_id_exact:
  "find_user_by_id db (PStr q) = Inr (Some u) \<Longrightarrow> u_user_id u = strip q"
  by (auto simp: find_user_by_id_def split: if_splits dest: find_user_loop_exact)

lemma find_user_by_id_absent:
  assumes "list_all (\<lambda>u. u_user_id u \<noteq> strip q) (USERS db)"
  shows "find_user_by_id db (PStr q) = Inr None"
  using find_user_loop_absent [OF assms] by (simp add: find_user_by_id_def)

lemma get_user_absent:
  assumes "find_user_by_id db (PStr q) = Inr None"
  shows "get_user R db (PStr q) =
           Inr (PDict [(asc ''found'', PBool False),
                       (asc ''error'', error_body (asc ''UNKNOWN_USER'')
                                         (asc ''User '' @ [39] @ q @ [39] @ asc '' not found''))])"
  using assms by (simp add: get_user_def user_not_found_message_def py_str_def)

lemma shipped_users_case:
  "list_all (\<lambda>w. list_all (\<lambda>u. case_variant (u_user_id w) (u_user_id u)
                                     = (u_user_id w = u_user_id u))
                    shipped_USERS) shipped_USERS"
  by (simp add: shipped_USERS_def case_variant_def same_letter_def asc_def)

lemma shipped_user_case_variant:
  assumes "list_all isspace before" and "list_all isspace after"
      and "u \<in> set (USERS shipped)" and "case_variant i (u_user_id u)" and "i \<noteq> u_user_id u"
  shows "find_user_by_id shipped (PStr (before @ i @ after)) = Inr None"
proof -
  from assms(3) shipped_users_keys have
    k: "u_user_id u \<noteq> []" "\<not> isspace (hd (u_user_id u))" "\<not> isspace (last (u_user_id u))"
    by (auto simp: list_all_iff shipped_def)
  from case_variant_ends [OF assms(4) k] have e: "i \<noteq> []" "\<not> isspace (hd i)" "\<not> isspace (last i)"
    by auto
  have "find_user_loop shipped_USERS i = None"
  proof (rule ccontr)
    assume "find_user_loop shipped_USERS i \<noteq> None"
    then obtain w where w: "find_user_loop shipped_USERS i = Some w" by auto
    from find_user_loop_exact [OF w] have m: "w \<in> set shipped_USERS" and wi: "u_user_id w = i"
      by auto
    from m assms(3) shipped_users_case
    have "case_variant (u_user_id w) (u_user_id u) = (u_user_id w = u_user_id u)"
      by (auto simp: list_all_iff shipped_def)
    with assms(4,5) wi show False by simp
  qed
  then show ?thesis
    using find_user_padded [OF assms(1,2) e, of shipped] by (simp add: shipped_def)
qed

text \<open>
  Claim C8 says that both lookups match whatever the letter case and the surrounding
  white space. The medication lookup does. The user lookup strips the identifier and
  then compares it as it is: \<open>_find_user_by_id\<close> has no \<open>lower()\<close>. So \<open>U001\<close>,
  which differs from the stored \<open>u001\<close> in letter case only, is not found.
\<close>

theorem user_lookup_case_sensitive:
  "case_variant (asc ''U001'') (asc ''u001'')
   \<and> get_user sample_runtime shipped (PStr (asc ''u001'')) = Inr u001_found
   \<and> get_user sample_runtime shipped (PStr (asc ''U001'')) =
       Inr (PDict [(asc ''found'', PBool False),
                   (asc ''error'', error_body (asc ''UNKNOWN_USER'')
                      (asc ''User '' @ [39] @ asc ''U001'' @ [39] @ asc '' not found''))])
   \<and> get_user sample_runtime shipped (PStr (asc ''U001''))
       \<noteq> get_user sample_runtime shipped (PStr (asc ''u001''))"
proof -
  have a: "case_variant (asc ''U001'') (asc ''u001'')"
    by (simp add: case_variant_def same_letter_def asc_def)
  have b: "get_user sample_runtime shipped (PStr (asc ''U001'')) =
       Inr (PDict [(asc ''found'', PBool False),
                   (asc ''error'', error_body (asc ''UNKNOWN_USER'')
                      (asc ''User '' @ [39] @ asc ''U001'' @ [39] @ asc '' not found''))])"
    by (simp add: tool_defs data_defs str_defs user_not_found_message_def py_str_def)
  show ?thesis
    unfolding b using a u001_gate(1) by (simp add: u001_found_def)
qed

text \<open>
  Claim C8 as amended. Over the shipped dataset, a query that differs from the name of
  a stored medication in the case of letters and in surrounding white space only finds
  that medication, and \<open>get_medication_by_name\<close> and \<open>check_stock\<close> return for it
  what they return for the stored name. A query that differs from a stored user
  identifier in surrounding white space only finds that user, and \<open>get_user\<close>
  returns for it what it returns for the stored identifier. The user lookup is
  case-sensitive: a query that differs from a stored user identifier in the case of a
  letter finds no user, with or without surrounding white space, and \<open>get_user\<close>
  returns the \<open>UNKNOWN_USER\<close> envelope for it; in every store the user that a query
  finds has the stripped query as its identifier, letter for letter, and a query whose
  stripped form is the identifier of no stored user gets the \<open>UNKNOWN_USER\<close>
  envelope.
\<close>

theorem lookup_matching:
  assumes "list_all isspace before" and "list_all isspace after"
  shows "(m \<in> set (MEDICATIONS shipped) \<and> case_variant v (m_name m) \<longrightarrow>
            find_med_by_name shipped (PStr (before @ v @ after)) = Inr (Some m)
            \<and> get_medication_by_name R shipped (PStr (before @ v @ after))
                = get_medication_by_name R shipped (PStr (m_name m))
            \<and> check_stock R shipped (PStr (before @ v @ after))
                = check_stock R shipped (PStr (m_name m)))
         \<and> (u \<in> set (USERS shipped) \<longrightarrow>
            find_user_by_id shipped (PStr (before @ u_user_id u @ after)) = Inr (Some u)
            \<and> get_user R shipped (PStr (before @ u_user_id u @ after))
                = get_user R shipped (PStr (u_user_id u)))
         \<and> (u \<in> set (USERS shipped) \<and> case_variant i (u_user_id u) \<and> i \<noteq> u_user_id u \<longrightarrow>
            find_user_by_id shipped (PStr (before @ i @ after)) = Inr None
            \<and> get_user R shipped (PStr (before @ i @ after)) =
                Inr (PDict [(asc ''found'', PBool False),
                            (asc ''error'', error_body (asc ''UNKNOWN_USER'')
                               (asc ''User '' @ [39] @ (before @ i @ after) @ [39]
                                  @ asc '' not found''))]))
         \<and> (find_user_by_id db (PStr q) = Inr (Some w) \<longrightarrow> u_user_id w = strip q)
         \<and> (list_all (\<lambda>u. u_user_id u \<noteq> strip q) (USERS db) \<longrightarrow>
            find_user_by_id db (PStr q) = Inr None
            \<and> get_user R db (PStr q) =
                Inr (PDict [(asc ''found'', PBool False),
                            (asc ''error'', error_body (asc ''UNKNOWN_USER'')
                               (asc ''User '' @ [39] @ q @ [39] @ asc '' not found''))]))"
proof (intro conjI impI)
  assume a: "m \<in> set (MEDICATIONS shipped) \<and> case_variant v (m_name m)"
  then have q: "find_med_by_name shipped (PStr (before @ v @ after)) = Inr (Some m)"
    using shipped_med_variant [OF assms] by blast
  from a have c: "find_med_by_name shipped (PStr (m_name m)) = Inr (Some m)"
    using shipped_med_variant [of "[]" "[]" m "m_name m"] case_variant_refl by simp
  show "find_med_by_name shipped (PStr (before @ v @ after)) = Inr (Some m)" by (rule q)
  show "get_medication_by_name R shipped (PStr (before @ v @ after))
          = get_medication_by_name R shipped (PStr (m_name m))"
    by (simp add: get_medication_by_name_def q c)
  show "check_stock R shipped (PStr (before @ v @ after)) = check_stock R shipped (PStr (m_name m))"
    by (simp add: check_stock_def q c)
next
  assume a: "u \<in> set (USERS shipped)"
  then have q: "find_user_by_id shipped (PStr (before @ u_user_id u @ after)) = Inr (Some u)"
    using shipped_user_padded [OF assms] by blast
  from a have c: "find_user_by_id shipped (PStr (u_user_id u)) = Inr (Some u)"
    using shipped_user_padded [of "[]" "[]" u] by simp
  show "find_user_by_id shipped (PStr (before @ u_user_id u @ after)) = Inr (Some u)" by (rule q)
  show "get_user R shipped (PStr (before @ u_user_id u @ after))
          = get_user R shipped (PStr (u_user_id u))"
    by (simp add: get_user_def q c)
next
  assume a: "u \<in> set (USERS shipped) \<and> case_variant i (u_user_id u) \<and> i \<noteq> u_user_id u"
  then have n: "find_user_by_id shipped (PStr (before @ i @ after)) = Inr None"
    using shipped_user_case_variant [OF assms] by blast
  show "find_user_by_id shipped (PStr (before @ i @ after)) = Inr None" by (rule n)
  show "get_user R shipped (PStr (before @ i @ after)) =
          Inr (PDict [(asc ''found'', PBool False),
                      (asc ''error'', error_body (asc ''UNKNOWN_USER'')
                         (asc ''User '' @ [39] @ (before @ i @ after) @ [39]
                            @ asc '' not found''))])"
    using n by (rule get_user_absent)
next
  assume "find_user_by_id db (PStr q) = Inr (Some w)"
  then show "u_user_id w = strip q" by (rule find_user_by_id_exact)
next
  assume a: "list_all (\<lambda>u. u_user_id u \<noteq> strip q) (USERS db)"
  then have n: "find_user_by_id db (PStr q) = Inr None" by (rule find_user_by_id_absent)
  show "find_user_by_id db (PStr q) = Inr None" by (rule n)
  show "get_user R db (PStr q) =
          Inr (PDict [(asc ''found'', PBool False),
                      (asc ''error'', error_body (asc ''UNKNOWN_USER'')
                         (asc ''User '' @ [39] @ q @ [39] @ asc '' not found''))])"
    using n by (rule get_user_absent)
qed

theorem lookup_matching_witness:
  "list_all isspace [32, 32]
   \<and> shipped_MEDICATIONS ! 3 \<in> set (MEDICATIONS shipped)
   \<and> m_name (shipped_MEDICATIONS ! 3) = asc ''Cetirizine''
   \<and> case_variant (asc ''cEtIrIzInE'') (asc ''Cetirizine'')
   \<and> get_medication_by_name sample_runtime shipped (PStr ([32, 32] @ asc ''cEtIrIzInE'' @ [32, 32]))
       = get_medication_by_name sample_runtime shipped (PStr (asc ''Cetirizine''))
   \<and> check_stock sample_runtime shipped (PStr ([32, 32] @ asc ''cEtIrIzInE'' @ [32, 32]))
       = check_stock sample_runtime shipped (PStr (asc ''Cetirizine''))
   \<and> check_stock sample_runtime shipped (PStr (asc ''Cetirizine'')) =
       Inr (PDict [(asc ''found'', PBool True), (asc ''name'', PStr (asc ''Cetirizine'')),
                   (asc ''stock'', PInt 0)])
   \<and> shipped_USERS ! 1 \<in> set (USERS shipped)
   \<and> u_user_id (shipped_USERS ! 1) = asc ''u002''
   \<and> get_user sample_runtime shipped (PStr ([32, 32] @ asc ''u002'' @ [32, 32]))
       = get_user sample_runtime shipped (PStr (asc ''u002''))
   \<and> find_user_by_id shipped (PStr ([32, 32] @ asc ''u002'' @ [32, 32]))
       = Inr (Some (shipped_USERS ! 1))
   \<and> u_user_id (shipped_USERS ! 1) = strip ([32, 32] @ asc ''u002'' @ [32, 32])
   \<and> case_variant (asc ''U002'') (asc ''u002'')
   \<and> asc ''U002'' \<noteq> asc ''u002''
   \<and> find_user_by_id shipped (PStr ([32, 32] @ asc ''U002'' @ [32, 32])) = Inr None
   \<and> get_user sample_runtime shipped (PStr ([32, 32] @ asc ''U002'' @ [32, 32])) =
       Inr (PDict [(asc ''found'', PBool False),
                   (asc ''error'', error_body (asc ''UNKNOWN_USER'')
                      (asc ''User '' @ [39] @ ([32, 32] @ asc ''U002'' @ [32, 32]) @ [39]
                         @ asc '' not found''))])
   \<and> list_all (\<lambda>u. u_user_id u \<noteq> strip (asc ''u011'')) (USERS shipped)
   \<and> get_user sample_runtime shipped (PStr (asc ''u011'')) =
       Inr (PDict [(asc ''found'', PBool False),
                   (asc ''error'', error_body (asc ''UNKNOWN_USER'')
                      (asc ''User '' @ [39] @ asc ''u011'' @ [39] @ asc '' not found''))])"
proof -
  let ?q = "[32, 32] @ asc ''u002'' @ [32, 32]"
  have s: "list_all isspace [32, 32]" by (simp add: isspace_def)
  have m: "shipped_MEDICATIONS ! 3 \<in> set (MEDICATIONS shipped)"
    by (simp add: shipped_def shipped_MEDICATIONS_def)
  have n: "m_name (shipped_MEDICATIONS ! 3) = asc ''Cetirizine''"
    by (simp add: shipped_MEDICATIONS_def)
  have v: "case_variant (asc ''cEtIrIzInE'') (m_name (shipped_MEDICATIONS ! 3))"
    unfolding n by (simp add: case_variant_def same_letter_def asc_def)
  have u: "shipped_USERS ! 1 \<in> set (USERS shipped)"
    by (simp add: shipped_def shipped_USERS_def)
  have i: "u_user_id (shipped_USERS ! 1) = asc ''u002''"
    by (simp add: shipped_USERS_def)
  have c: "check_stock sample_runtime shipped (PStr (asc ''Cetirizine'')) =
       Inr (PDict [(asc ''found'', PBool True), (asc ''name'', PStr (asc ''Cetirizine'')),
                   (asc ''stock'', PInt 0)])"
    by (simp add: tool_defs data_defs str_defs)
  have cv: "case_variant (asc ''U002'') (u_user_id (shipped_USERS ! 1))"
    unfolding i by (simp add: case_variant_def same_letter_def asc_def)
  have ne: "asc ''U002'' \<noteq> u_user_id (shipped_USERS ! 1)"
    unfolding i by (simp add: asc_def)
  have a: "list_all (\<lambda>u. u_user_id u \<noteq> strip (asc ''u011'')) (USERS shipped)"
    by (simp add: data_defs str_defs)
  note t = lookup_matching [OF s s, where m = "shipped_MEDICATIONS ! 3"
      and v = "asc ''cEtIrIzInE''" and R = sample_runtime and u = "shipped_USERS ! 1"
      and i = "asc ''U002''" and db = shipped and w = "shipped_USERS ! 1"]
  have f: "find_user_by_id shipped (PStr ?q) = Inr (Some (shipped_USERS ! 1))"
    using t [of ?q] u unfolding i by blast
  have e: "u_user_id (shipped_USERS ! 1) = strip ?q"
    using t [of ?q] f by blast
  have t1: "get_medication_by_name sample_runtime shipped
                  (PStr ([32, 32] @ asc ''cEtIrIzInE'' @ [32, 32]))
                = get_medication_by_name sample_runtime shipped
                    (PStr (m_name (shipped_MEDICATIONS ! 3)))
            \<and> check_stock sample_runtime shipped (PStr ([32, 32] @ asc ''cEtIrIzInE'' @ [32, 32]))
                = check_stock sample_runtime shipped (PStr (m_name (shipped_MEDICATIONS ! 3)))"
    using t [of ?q] m v by blast
  have t2: "get_user sample_runtime shipped
                  (PStr ([32, 32] @ u_user_id (shipped_USERS ! 1) @ [32, 32]))
                = get_user sample_runtime shipped (PStr (u_user_id (shipped_USERS ! 1)))"
    using t [of ?q] u by blast
  have t3: "find_user_by_id shipped (PStr ([32, 32] @ asc ''U002'' @ [32, 32])) = Inr None
            \<and> get_user sample_runtime shipped (PStr ([32, 32] @ asc ''U002'' @ [32, 32])) =
                Inr (PDict [(asc ''found'', PBool False),
                            (asc ''error'', error_body (asc ''UNKNOWN_USER'')
                               (asc ''User '' @ [39] @ ([32, 32] @ asc ''U002'' @ [32, 32]) @ [39]
                                  @ asc '' not found''))])"
    using t [of ?q] u cv ne by blast
  have t4: "get_user sample_runtime shipped (PStr (asc ''u011'')) =
       Inr (PDict [(asc ''found'', PBool False),
                   (asc ''error'', error_body (asc ''UNKNOWN_USER'')
                      (asc ''User '' @ [39] @ asc ''u011'' @ [39] @ asc '' not found''))])"
    using t [of "asc ''u011''"] a by blast
  show ?thesis
    using s m n v u i c cv ne a f e t1 t2 t3 t4 by (simp only: simp_thms)
qed
subsection \<open>The internal-error branch\<close>



subsection \<open>Empty inputs\<close>

text \<open>
  Claim C10. On the empty string every operation of the tool layer returns its error
  envelope: \<open>get_user\<close> reports \<open>UNKNOWN_USER\<close>, \<open>get_medication_by_name\<close> and
  \<open>check_stock\<close> report \<open>NOT_FOUND\<close>, and \<open>check_prescription\<close> reports
  \<open>UNKNOWN_USER\<close> whatever the medication name is (a value of any type). Nothing is
  raised, and the result is the same for every store, so the store is not consulted.
\<close>

theorem empty_input_envelopes:
  "get_user R db (PStr []) =
     Inr (PDict [(asc ''found'', PBool False),
                 (asc ''error'', error_body (asc ''UNKNOWN_USER'')
                                   (asc ''User '' @ [39, 39] @ asc '' not found''))])
   \<and> get_medication_by_name R db (PStr []) =
     Inr (PDict [(asc ''found'', PBool False),
                 (asc ''error'', error_body (asc ''NOT_FOUND'')
                                   (asc ''Medication '' @ [39, 39] @ asc '' not found''))])
   \<and> check_stock R db (PStr []) =
     Inr (PDict [(asc ''found'', PBool False),
                 (asc ''error'', error_body (asc ''NOT_FOUND'')
                                   (asc ''Medication '' @ [39, 39] @ asc '' not found''))])
   \<and> check_prescription R db (PStr []) name =
     Inr (PDict [(asc ''ok'', PBool False),
                 (asc ''error'', error_body (asc ''UNKNOWN_USER'')
                                   (asc ''User '' @ [39, 39] @ asc '' not found''))])"
  by (simp add: get_user_def get_medication_by_name_def check_stock_def check_prescription_def
      find_user_by_id_def find_med_by_name_def user_not_found_message_def
      med_not_found_message_def py_str_def)

end
